theory Spec2Isabelle
  imports Complex_Main
begin

section \<open>Python values, exceptions and arrays\<close>

text \<open>
  The module under study is \<^verbatim>\<open>hlm/lacombe_mcintyre/sdm/model.py\<close>: the classes
  \<^verbatim>\<open>Base_HSDM\<close> and \<^verbatim>\<open>HSDM\<close> that set up and drive a Metropolis-within-Gibbs
  sampler. Python exceptions are values of type \<open>error\<close>; a function that may raise
  returns \<open>error + 'a\<close> with \<open>Inl\<close> for the exception. Floating-point numbers are
  idealised as reals. A leading underscore of a Python name is dropped
  (\<^verbatim>\<open>_setup_data\<close> is \<open>setup_data\<close>), since an Isabelle name cannot start with one.
\<close>

datatype error =
    NameError string
  | AttributeError string
  | KeyError string
  | ZeroDivisionError
  | ValueError
  | TypeError
  | UserWarning string
  | CollaboratorError string

definition ebind :: "error + 'a \<Rightarrow> ('a \<Rightarrow> error + 'b) \<Rightarrow> error + 'b" where
  "ebind m f = (case m of Inl e \<Rightarrow> Inl e | Inr x \<Rightarrow> f x)"

text \<open>
  A two-dimensional array with its \<^verbatim>\<open>shape\<close> and its rows. Dense NumPy arrays and
  SciPy sparse matrices are both modelled by it: the claims depend on shapes and
  entries, not on the storage format.
\<close>

datatype ndarray = NdArray (shape: "nat \<times> nat") (rows: "real list list")

definition np_zeros :: "nat \<Rightarrow> nat \<Rightarrow> ndarray" where
  "np_zeros r c = NdArray (r, c) (replicate r (replicate c 0))"

definition np_identity :: "nat \<Rightarrow> ndarray" where
  "np_identity n =
     NdArray (n, n) (map (\<lambda>i. map (\<lambda>j. if i = j then 1 else 0) [0..<n]) [0..<n])"

definition np_eye :: "nat \<Rightarrow> ndarray" where
  "np_eye n = np_identity n"

definition scale :: "real \<Rightarrow> ndarray \<Rightarrow> ndarray" where
  "scale a A = NdArray (shape A) (map (map (\<lambda>x. a * x)) (rows A))"

definition column :: "ndarray \<Rightarrow> nat \<Rightarrow> real list" where
  "column A j = map (\<lambda>r. r ! j) (rows A)"

definition T :: "ndarray \<Rightarrow> ndarray" where
  "T A = NdArray (snd (shape A), fst (shape A)) (map (column A) [0..<snd (shape A)])"

text \<open>\<^verbatim>\<open>np.dot\<close> (and \<^verbatim>\<open>spdot\<close>) of two matrices: the inner dimensions must agree,
  otherwise NumPy raises \<^verbatim>\<open>ValueError\<close>.\<close>

definition np_dot :: "ndarray \<Rightarrow> ndarray \<Rightarrow> error + ndarray" where
  "np_dot A B =
     (if snd (shape A) = fst (shape B)
      then Inr (NdArray (fst (shape A), snd (shape B))
             (map (\<lambda>r. map (\<lambda>j. sum_list (map2 (\<lambda>x y. x * y) r (column B j)))
                          [0..<snd (shape B)])
                  (rows A)))
      else Inl ValueError)"

text \<open>Entrywise difference of a dense and a sparse matrix: the shapes must be equal.\<close>

definition nd_sub :: "ndarray \<Rightarrow> ndarray \<Rightarrow> error + ndarray" where
  "nd_sub A B =
     (if shape A = shape B
      then Inr (NdArray (shape A) (map2 (map2 (\<lambda>x y. x - y)) (rows A) (rows B)))
      else Inl ValueError)"

text \<open>
  The values a namespace attribute can hold. \<open>NpInf\<close> is the infinity NumPy returns
  for a division of a NumPy scalar by zero.
\<close>

datatype pyval = PyInt int | PyFloat real | NpInf | Mat ndarray

type_synonym ns = "string \<rightharpoonup> pyval"

definition attr :: "ns \<Rightarrow> string \<Rightarrow> error + pyval" where
  "attr st k = (case st k of None \<Rightarrow> Inl (AttributeError k) | Some v \<Rightarrow> Inr v)"

fun as_dim :: "pyval \<Rightarrow> error + nat" where
  "as_dim (PyInt i) = (if i < 0 then Inl ValueError else Inr (nat i))"
| "as_dim v = Inl TypeError"

fun as_int :: "pyval \<Rightarrow> error + int" where
  "as_int (PyInt i) = Inr i"
| "as_int v = Inl TypeError"

fun as_mat :: "pyval \<Rightarrow> error + ndarray" where
  "as_mat (Mat A) = Inr A"
| "as_mat v = Inl TypeError"

definition get_dim :: "ns \<Rightarrow> string \<Rightarrow> error + nat" where
  "get_dim st k = ebind (attr st k) as_dim"

definition get_int :: "ns \<Rightarrow> string \<Rightarrow> error + int" where
  "get_int st k = ebind (attr st k) as_int"

definition get_mat :: "ns \<Rightarrow> string \<Rightarrow> error + ndarray" where
  "get_mat st k = ebind (attr st k) as_mat"

text \<open>\<^verbatim>\<open>ns.update(d)\<close> for a dictionary given as a list of items.\<close>

definition update :: "ns \<Rightarrow> (string \<times> pyval) list \<Rightarrow> ns" where
  "update st kvs = fold (\<lambda>(k, v) m. m(k \<mapsto> v)) kvs st"

text \<open>Decimal rendering of a count, as \<^verbatim>\<open>'{}'.format(n)\<close> gives it.\<close>

definition digit_char :: "nat \<Rightarrow> char" where
  "digit_char d = ''0123456789'' ! d"

fun str_nat :: "nat \<Rightarrow> string" where
  "str_nat n = (if n < 10 then [digit_char n] else str_nat (n div 10) @ [digit_char (n mod 10)])"

declare str_nat.simps [simp del]

section \<open>The sampler object, its configuration and its collaborators\<close>

datatype truncate_opt = TruncName string | TruncPair real real

record rho_configs =
  jump :: real
  ar_low :: real
  ar_hi :: real
  proposal :: string
  adapt_step :: real
  rejected :: int
  accepted :: int
  max_adapt :: int
  adapt :: bool

record configs =
  truncate' :: truncate_opt
  Rho :: rho_configs

text \<open>
  The keyword arguments \<^verbatim>\<open>**_configs\<close>, one optional field per key the module reads
  (\<open>None\<close>: the key was not passed). Keys the module never reads end in
  \<^verbatim>\<open>**kw\<close> of \<^verbatim>\<open>_setup_configs\<close> and have no effect; they are not modelled.
\<close>

record options =
  kw_extra_tracked_params :: "string list option"
  kw_Sigma2_s0 :: "real option"
  kw_Sigma2_v0 :: "real option"
  kw_Betas_cov0 :: "ndarray option"
  kw_Betas_mean0 :: "ndarray option"
  kw_Tau2_s0 :: "real option"
  kw_Tau2_v0 :: "real option"
  kw_Gammas_cov0 :: "ndarray option"
  kw_Gammas_mean0 :: "ndarray option"
  kw_truncate :: "truncate_opt option"
  kw_tuning :: "int option"
  kw_rho_jump :: "real option"
  kw_rho_ar_low :: "real option"
  kw_rho_ar_hi :: "real option"
  kw_rho_proposal :: "string option"
  kw_rho_adapt_step :: "real option"

text \<open>\<^verbatim>\<open>hypers.pop(key, default)\<close> on the keyword dictionary.\<close>

definition kw_pop :: "'a option \<Rightarrow> 'a \<Rightarrow> 'a" where
  "kw_pop given dflt = (case given of None \<Rightarrow> dflt | Some v \<Rightarrow> v)"

text \<open>A validated spatial weights object: its unit count \<^verbatim>\<open>.n\<close> and its matrix
  \<^verbatim>\<open>.sparse\<close>.\<close>

record weights =
  W_n :: nat
  W_sparse :: ndarray

type_synonym addr = nat

text \<open>
  The estimator instance \<^verbatim>\<open>self\<close>. An attribute that may be read before it is
  assigned is an option (\<open>None\<close>: not assigned yet). \<open>traced_params\<close> holds the
  address of a list object, not a list: the constructor assigns the module-level
  list \<^verbatim>\<open>SAMPLERS\<close> itself.
\<close>

record hsdm =
  state :: ns
  trace :: "string \<rightharpoonup> pyval list"
  traced_params :: "addr option"
  configs :: "configs option"
  cycles :: "int option"
  verbose :: "int option"
  W_attr :: "weights option"
  M_attr :: "weights option"

text \<open>
  What lives outside the instance: the list objects of the module (the heap), the
  lines printed so far, the number of times the update sweep \<^verbatim>\<open>sample(self)\<close> of
  \<^verbatim>\<open>.sample\<close> has been entered, and the private state \<open>rng\<close> of that sweep (its
  random stream).
\<close>

record 'r world =
  heap :: "addr \<rightharpoonup> string list"
  stdout :: "string list"
  advance_calls :: nat
  rng :: 'r

definition SAMPLERS :: addr where
  "SAMPLERS = 0"

definition SAMPLERS_items :: "string list" where
  "SAMPLERS_items = [''Alphas'', ''Betas'', ''Sigma2'', ''Tau2'', ''Gammas'', ''Rho'']"

text \<open>Importing the module binds \<^verbatim>\<open>SAMPLERS\<close> to a fresh list of the six names.\<close>

definition import_model :: "'r \<Rightarrow> 'r world" where
  "import_model r =
     \<lparr>heap = [SAMPLERS \<mapsto> SAMPLERS_items], stdout = [], advance_calls = 0, rng = r\<rparr>"

definition deref :: "'r world \<Rightarrow> addr option \<Rightarrow> error + string list" where
  "deref w a =
     (case a of None \<Rightarrow> Inl (AttributeError ''traced_params'')
      | Some l \<Rightarrow> (case heap w l of None \<Rightarrow> Inl (NameError ''SAMPLERS'') | Some xs \<Rightarrow> Inr xs))"

text \<open>
  A floating-point scalar returned by \<^verbatim>\<open>speigen_range\<close>: a Python float or a NumPy
  scalar. The two differ in \<^verbatim>\<open>1./e\<close> at \<open>e = 0\<close>: Python raises
  \<^verbatim>\<open>ZeroDivisionError\<close>, NumPy warns and returns infinity.
\<close>

datatype scalar = PyF real | NpF real

fun scalar_val :: "scalar \<Rightarrow> real" where
  "scalar_val (PyF x) = x"
| "scalar_val (NpF x) = x"

fun recip :: "scalar \<Rightarrow> error + pyval" where
  "recip (PyF x) = (if x = 0 then Inl ZeroDivisionError else Inr (PyFloat (1 / x)))"
| "recip (NpF x) = (if x = 0 then Inr NpInf else Inr (PyFloat (1 / x)))"

text \<open>
  The functions the module imports from the rest of the package, which are not part of
  \<^verbatim>\<open>model.py\<close>: the validators of \<^verbatim>\<open>verify\<close>, \<^verbatim>\<open>speigen_range\<close> of \<^verbatim>\<open>utils\<close>, and the
  update sweep \<^verbatim>\<open>sample\<close> of \<^verbatim>\<open>.sample\<close>. They are parameters of the model; each may
  raise.
\<close>

record 'r collaborators =
  verify_weights :: "weights \<Rightarrow> weights \<Rightarrow> string \<Rightarrow> error + (weights \<times> weights)"
  verify_Delta_members ::
    "ndarray option \<Rightarrow> nat list option \<Rightarrow> nat \<Rightarrow> nat \<Rightarrow> error + (ndarray \<times> nat list)"
  verify_covariates :: "ndarray \<Rightarrow> weights \<Rightarrow> error + ndarray"
  speigen_range :: "ndarray \<Rightarrow> error + (scalar \<times> scalar)"
  sample_sweep :: "'r \<Rightarrow> hsdm \<Rightarrow> error + ('r \<times> hsdm)"

section \<open>Base\_HSDM: setting up the state\<close>

text \<open>
  \<^verbatim>\<open>_setup_data\<close>: identity matrices, prior hyperparameters (keyword overrides or
  defaults), their products and the cross-products of the data. Every local variable
  but \<^verbatim>\<open>hypers\<close> and \<^verbatim>\<open>self\<close> is stored in the state; the keyword dictionary is
  returned.
\<close>

definition setup_data :: "hsdm \<Rightarrow> options \<Rightarrow> error + (hsdm \<times> options)" where
  "setup_data self hypers =
     ebind (get_dim (state self) ''N'') (\<lambda>N.
     ebind (get_dim (state self) ''J'') (\<lambda>J.
     ebind (get_dim (state self) ''p'') (\<lambda>p.
     ebind (get_dim (state self) ''q'') (\<lambda>q.
     let In = np_identity N;
         Ij = np_identity J;
         Sigma2_s0 = kw_pop (kw_Sigma2_s0 hypers) (1 / 1000);
         Sigma2_v0 = kw_pop (kw_Sigma2_v0 hypers) (1 / 1000);
         Betas_cov0 = kw_pop (kw_Betas_cov0 hypers) (scale (1 / 1000) (np_eye p));
         Betas_mean0 = kw_pop (kw_Betas_mean0 hypers) (np_zeros p 1);
         Tau2_s0 = kw_pop (kw_Tau2_s0 hypers) (1 / 1000);
         Tau2_v0 = kw_pop (kw_Tau2_v0 hypers) (1 / 1000);
         Gammas_cov0 = kw_pop (kw_Gammas_cov0 hypers) (scale (1 / 1000) (np_eye q));
         Gammas_mean0 = kw_pop (kw_Gammas_mean0 hypers) (np_zeros q 1)
     in
     ebind (np_dot Betas_cov0 Betas_mean0) (\<lambda>Betas_covm.
     ebind (np_dot Gammas_cov0 Gammas_mean0) (\<lambda>Gammas_covm.
     let Tau2_prod = Tau2_s0 * Tau2_v0;
         Sigma2_prod = Sigma2_s0 * Sigma2_v0
     in
     ebind (get_mat (state self) ''X'') (\<lambda>X.
     ebind (np_dot (T X) X) (\<lambda>XtX.
     ebind (get_mat (state self) ''Z'') (\<lambda>Z.
     ebind (np_dot (T Z) Z) (\<lambda>ZtZ.
     ebind (get_mat (state self) ''Delta'') (\<lambda>Delta.
     ebind (np_dot (T Delta) Delta) (\<lambda>DeltatDelta.
     Inr (self\<lparr>state := update (state self)
            [(''In'', Mat In), (''Ij'', Mat Ij),
             (''Sigma2_s0'', PyFloat Sigma2_s0), (''Sigma2_v0'', PyFloat Sigma2_v0),
             (''Betas_cov0'', Mat Betas_cov0), (''Betas_mean0'', Mat Betas_mean0),
             (''Tau2_s0'', PyFloat Tau2_s0), (''Tau2_v0'', PyFloat Tau2_v0),
             (''Gammas_cov0'', Mat Gammas_cov0), (''Gammas_mean0'', Mat Gammas_mean0),
             (''Betas_covm'', Mat Betas_covm), (''Gammas_covm'', Mat Gammas_covm),
             (''Tau2_prod'', PyFloat Tau2_prod), (''Sigma2_prod'', PyFloat Sigma2_prod),
             (''XtX'', Mat XtX), (''ZtZ'', Mat ZtZ), (''DeltatDelta'', Mat DeltatDelta)]\<rparr>,
          hypers)))))))))))))"

text \<open>\<^verbatim>\<open>_setup_configs\<close>: the configuration namespace, from the remaining keywords or
  their defaults.\<close>

definition setup_configs :: "hsdm \<Rightarrow> options \<Rightarrow> hsdm" where
  "setup_configs self kw =
     (let tuning = kw_pop (kw_tuning kw) 0 in
      self\<lparr>configs := Some
        \<lparr>truncate' = kw_pop (kw_truncate kw) (TruncName ''eigs''),
         Rho = \<lparr>jump = kw_pop (kw_rho_jump kw) (1 / 2),
                ar_low = kw_pop (kw_rho_ar_low kw) (4 / 10),
                ar_hi = kw_pop (kw_rho_ar_hi kw) (6 / 10),
                proposal = kw_pop (kw_rho_proposal kw) ''norm'',
                adapt_step = kw_pop (kw_rho_adapt_step kw) (101 / 100),
                rejected = 0,
                accepted = 0,
                max_adapt = tuning,
                adapt = (if tuning > 0 then True else False)\<rparr>\<rparr>\<rparr>)"

text \<open>
  \<^verbatim>\<open>_setup_truncation\<close>: the bounds of \<open>Rho\<close> are the reciprocals of the two values
  \<^verbatim>\<open>speigen_range(self.state.M)\<close> returns. The body reads nothing of
  \<^verbatim>\<open>self.configs\<close>.
\<close>

definition setup_truncation :: "'r collaborators \<Rightarrow> hsdm \<Rightarrow> error + hsdm" where
  "setup_truncation env self =
     ebind (get_mat (state self) ''M'') (\<lambda>M.
     ebind (speigen_range env M) (\<lambda>(M_emin, M_emax).
     ebind (recip M_emin) (\<lambda>Rho_min.
     ebind (recip M_emax) (\<lambda>Rho_max.
     Inr (self\<lparr>state := (state self)(''Rho_min'' \<mapsto> Rho_min, ''Rho_max'' \<mapsto> Rho_max)\<rparr>)))))"

text \<open>
  \<^verbatim>\<open>_setup_initial_values\<close>: the starting values of the sampled parameters and of
  the quantities derived from them. \<^verbatim>\<open>-1.0 / (J - 1)\<close> divides a Python float by
  a Python integer, which raises for \<open>J = 1\<close>.
\<close>

definition setup_initial_values :: "hsdm \<Rightarrow> error + hsdm" where
  "setup_initial_values self =
     ebind (get_dim (state self) ''p'') (\<lambda>p.
     ebind (get_dim (state self) ''q'') (\<lambda>q.
     ebind (get_dim (state self) ''J'') (\<lambda>J.
     let Betas = np_zeros p 1;
         Gammas = np_zeros q 1;
         Alphas = np_zeros J 1;
         Sigma2 = 2;
         Tau2 = 2
     in
     ebind (get_int (state self) ''J'') (\<lambda>Jint.
     ebind (if Jint - 1 = 0 then Inl ZeroDivisionError
            else Inr (- 1 / real_of_int (Jint - 1))) (\<lambda>Rho.
     ebind (get_mat (state self) ''Ij'') (\<lambda>Ij.
     ebind (get_mat (state self) ''M'') (\<lambda>M.
     ebind (nd_sub Ij (scale Rho M)) (\<lambda>B.
     ebind (get_mat (state self) ''Delta'') (\<lambda>Delta.
     ebind (np_dot Delta Alphas) (\<lambda>DeltaAlphas.
     ebind (get_mat (state self) ''X'') (\<lambda>X.
     ebind (np_dot X Betas) (\<lambda>XBetas.
     ebind (get_mat (state self) ''Z'') (\<lambda>Z.
     ebind (np_dot Z Gammas) (\<lambda>ZGammas.
     ebind (np_dot B ZGammas) (\<lambda>BZGammas.
     Inr (self\<lparr>state := update (state self)
            [(''Betas'', Mat Betas), (''Gammas'', Mat Gammas), (''Alphas'', Mat Alphas),
             (''Sigma2'', PyInt Sigma2), (''Tau2'', PyInt Tau2), (''Rho'', PyFloat Rho),
             (''B'', Mat B), (''DeltaAlphas'', Mat DeltaAlphas), (''XBetas'', Mat XBetas),
             (''ZGammas'', Mat ZGammas), (''BZGammas'', Mat BZGammas)]\<rparr>))))))))))))))))"

section \<open>Base\_HSDM: drawing and sampling\<close>

text \<open>The loop of \<^verbatim>\<open>draw\<close>: for each traced name, append the state's current value to
  the name's list in the trace. Either dictionary lookup raises \<^verbatim>\<open>KeyError\<close> on a
  missing name.\<close>

fun record_params :: "ns \<Rightarrow> string list \<Rightarrow> (string \<rightharpoonup> pyval list) \<Rightarrow> error + (string \<rightharpoonup> pyval list)" where
  "record_params st [] tr = Inr tr"
| "record_params st (param # params) tr =
     (case tr param of
        None \<Rightarrow> Inl (KeyError param)
      | Some xs \<Rightarrow>
          (case st param of
             None \<Rightarrow> Inl (KeyError param)
           | Some v \<Rightarrow> record_params st params (tr(param \<mapsto> xs @ [v]))))"

text \<open>\<^verbatim>\<open>draw\<close>: one call of the sweep \<^verbatim>\<open>sample(self)\<close>, then the recording loop over
  the list \<^verbatim>\<open>self.traced_params\<close> refers to.\<close>

definition draw :: "'r collaborators \<Rightarrow> 'r world \<times> hsdm \<Rightarrow> error + ('r world \<times> hsdm)" where
  "draw env ws =
     (case ws of (w, self) \<Rightarrow>
      ebind (sample_sweep env (rng w) self) (\<lambda>(r, self1).
      let w1 = w\<lparr>advance_calls := Suc (advance_calls w), rng := r\<rparr> in
      ebind (deref w1 (traced_params self1)) (\<lambda>names.
      ebind (record_params (state self1) names (trace self1)) (\<lambda>tr.
      Inr (w1, self1\<lparr>trace := tr\<rparr>)))))"

definition report :: "'r world \<Rightarrow> int \<Rightarrow> int \<Rightarrow> 'r world" where
  "report w v ndraws =
     (if v > 1 \<and> ndraws mod 100 = 0
      then w\<lparr>stdout := stdout w @ [str_nat (nat ndraws) @ '' Draws to go'']\<rparr>
      else w)"

text \<open>The \<^verbatim>\<open>while ndraws > 0\<close> loop of \<^verbatim>\<open>sample\<close>.\<close>

function sample_loop :: "'r collaborators \<Rightarrow> 'r world \<times> hsdm \<Rightarrow> int \<Rightarrow> error + ('r world \<times> hsdm)" where
  "sample_loop env ws ndraws =
     (if ndraws > 0
      then (case verbose (snd ws) of
              None \<Rightarrow> Inl (AttributeError ''_verbose'')
            | Some v \<Rightarrow>
                (case draw env (report (fst ws) v ndraws, snd ws) of
                   Inl e \<Rightarrow> Inl e
                 | Inr ws1 \<Rightarrow> sample_loop env ws1 (ndraws - 1)))
      else Inr ws)"
  by pat_completeness auto
termination
  by (relation "measure (\<lambda>(env, ws, ndraws). nat ndraws)") auto

declare sample_loop.simps [simp del]

text \<open>
  \<^verbatim>\<open>sample(ndraws, pop)\<close>. With \<^verbatim>\<open>pop\<close> true the first statement after the loop,
  \<^verbatim>\<open>copy.deepcopy(self.trace.__dict__)\<close>, looks up the name \<^verbatim>\<open>copy\<close>, which the module
  never imports or defines: a \<^verbatim>\<open>NameError\<close>, so the statements after it (building the
  returned namespace and rebinding \<^verbatim>\<open>self.trace\<close> to an empty \<^verbatim>\<open>NS()\<close>) are never
  reached. Without \<^verbatim>\<open>pop\<close> the method returns \<^verbatim>\<open>None\<close>.
\<close>

definition sample ::
  "'r collaborators \<Rightarrow> 'r world \<times> hsdm \<Rightarrow> int \<Rightarrow> bool
     \<Rightarrow> error + ('r world \<times> hsdm \<times> (string \<rightharpoonup> pyval list) option)" where
  "sample env ws ndraws pop =
     ebind (sample_loop env ws ndraws) (\<lambda>(w, self).
     if pop then Inl (NameError ''copy'') else Inr (w, self, None))"

section \<open>The constructors\<close>

definition fresh_trace :: "(string \<rightharpoonup> pyval list) \<Rightarrow> string list \<Rightarrow> (string \<rightharpoonup> pyval list)" where
  "fresh_trace tr names = fold (\<lambda>k m. m(k \<mapsto> [])) names tr"

text \<open>
  \<^verbatim>\<open>Base_HSDM.__init__\<close>. \<^verbatim>\<open>Z\<close> is optional because \<^verbatim>\<open>HSDM\<close> passes its default
  \<^verbatim>\<open>None\<close> through. The branch for extra traced names evaluates the name
  \<^verbatim>\<open>extra_tracked_params\<close>, which is not defined (the local is called \<^verbatim>\<open>extras\<close>).
\<close>

definition Base_HSDM_init ::
  "'r collaborators \<Rightarrow> 'r world \<Rightarrow> hsdm \<Rightarrow> ndarray \<Rightarrow> ndarray \<Rightarrow> ndarray \<Rightarrow> ndarray
     \<Rightarrow> ndarray option \<Rightarrow> ndarray \<Rightarrow> int option \<Rightarrow> options \<Rightarrow> error + ('r world \<times> hsdm)" where
  "Base_HSDM_init env w self y X W M Z Delta n_samples cfgs =
     (case shape X of (N, p) \<Rightarrow>
      let J = fst (shape M) in
      (case Z of
         None \<Rightarrow> Inl (AttributeError ''shape'')
       | Some Zm \<Rightarrow>
          (case shape Zm of (J', q) \<Rightarrow>
           let self1 = self\<lparr>state := update Map.empty
                  [(''X'', Mat X), (''y'', Mat y), (''W'', Mat W), (''M'', Mat M),
                   (''Z'', Mat Zm), (''Delta'', Mat Delta), (''N'', PyInt (int N)),
                   (''J'', PyInt (int J)), (''p'', PyInt (int p)), (''q'', PyInt (int q))]\<rparr>;
               self2 = self1\<lparr>trace := Map.empty\<rparr>;
               self3 = self2\<lparr>traced_params := Some SAMPLERS\<rparr>;
               extras = kw_extra_tracked_params cfgs
           in
           (case extras of
              Some ex \<Rightarrow> Inl (NameError ''extra_tracked_params'')
            | None \<Rightarrow>
               ebind (deref w (traced_params self3)) (\<lambda>names.
               let self4 = self3\<lparr>trace := fresh_trace (trace self3) names\<rparr> in
               ebind (setup_data self4 cfgs) (\<lambda>(self5, leftovers).
               let self6 = setup_configs self5 leftovers in
               ebind (setup_truncation env self6) (\<lambda>self7.
               ebind (setup_initial_values self7) (\<lambda>self8.
               let self9 = self8\<lparr>cycles := Some 0\<rparr> in
               ebind (sample env (w, self9) (case n_samples of None \<Rightarrow> 1000 | Some n \<Rightarrow> n) False)
                 (\<lambda>(w1, self10, ret). Inr (w1, self10))))))))))"

text \<open>The arguments of \<^verbatim>\<open>HSDM.__init__\<close> (all but \<^verbatim>\<open>sparse\<close>, which the method never
  reads); an option is a parameter left at its default
  (\<^verbatim>\<open>None\<close> for \<^verbatim>\<open>Z\<close>, \<^verbatim>\<open>Delta\<close>, \<^verbatim>\<open>membership\<close>; 1000 for \<^verbatim>\<open>n_samples\<close>).
  \<^verbatim>\<open>verbose\<close> is an integer, \<^verbatim>\<open>False\<close> being 0.\<close>

record hsdm_args =
  a_y :: ndarray
  a_X :: ndarray
  a_W :: weights
  a_M :: weights
  a_Z :: "ndarray option"
  a_Delta :: "ndarray option"
  a_membership :: "nat list option"
  a_transform :: string
  a_n_samples :: "int option"
  a_verbose :: int
  a_options :: options

definition new_hsdm :: hsdm where
  "new_hsdm = \<lparr>state = Map.empty, trace = Map.empty, traced_params = None, configs = None,
     cycles = None, verbose = None, W_attr = None, M_attr = None\<rparr>"

definition mismatch_message :: "nat \<Rightarrow> nat \<Rightarrow> string" where
  "mismatch_message N' N =
     ''Number of lower-level observations does not match between X ('' @ str_nat N'
       @ '') and W ('' @ str_nat N @ '')''"

text \<open>\<^verbatim>\<open>HSDM.__init__\<close>: validate the inputs, then run \<^verbatim>\<open>Base_HSDM.__init__\<close>.\<close>

definition HSDM_init :: "'r collaborators \<Rightarrow> 'r world \<Rightarrow> hsdm_args \<Rightarrow> error + ('r world \<times> hsdm)" where
  "HSDM_init env w args =
     ebind (verify_weights env (a_W args) (a_M args) (a_transform args)) (\<lambda>(W, M).
     let self1 = new_hsdm\<lparr>W_attr := Some W, M_attr := Some M\<rparr>;
         N = W_n W;
         J = W_n M;
         N' = fst (shape (a_X args))
     in
     if N' \<noteq> N then Inl (UserWarning (mismatch_message N' N))
     else
       let Wmat = W_sparse W;
           Mmat = W_sparse M
       in
       ebind (verify_Delta_members env (a_Delta args) (a_membership args) N J) (\<lambda>(Delta, membership).
       ebind (verify_covariates env (a_X args) W) (\<lambda>X.
       let self2 = self1\<lparr>verbose := Some (a_verbose args)\<rparr> in
       Base_HSDM_init env w self2 (a_y args) X Wmat Mmat (a_Z args) Delta
         (Some (case a_n_samples args of None \<Rightarrow> 1000 | Some n \<Rightarrow> n)) (a_options args))))"

section \<open>The contract of the update sweep\<close>

text \<open>
  \<^verbatim>\<open>draw\<close> hands the whole instance to the sweep. Its interface allows the sweep to
  change the state and the configuration; \<open>keeps_trace\<close> says that a sweep leaves the
  trace and the reference to the traced names as they are.
\<close>

definition keeps_trace :: "'r collaborators \<Rightarrow> bool" where
  "keeps_trace env \<longleftrightarrow>
     (\<forall>r s r' s'. sample_sweep env r s = Inr (r', s')
        \<longrightarrow> trace s' = trace s \<and> traced_params s' = traced_params s)"

fun as_float :: "pyval \<Rightarrow> error + real" where
  "as_float (PyFloat x) = Inr x"
| "as_float (PyInt i) = Inr (real_of_int i)"
| "as_float v = Inl TypeError"

text \<open>Modelled from the spec: the test \<open>Rho' \<in> (Rho_min, Rho_max)\<close> of the Metropolis step
  of the missing sweep, as two comparisons of a proposal with a bound, which is a float or
  NumPy's infinity.\<close>

fun less_val :: "pyval \<Rightarrow> real \<Rightarrow> error + bool" where
  "less_val (PyFloat l) x = Inr (l < x)"
| "less_val (PyInt i) x = Inr (real_of_int i < x)"
| "less_val NpInf x = Inr False"
| "less_val (Mat A) x = Inl TypeError"

fun val_less :: "real \<Rightarrow> pyval \<Rightarrow> error + bool" where
  "val_less x (PyFloat h) = Inr (x < h)"
| "val_less x (PyInt i) = Inr (x < real_of_int i)"
| "val_less x NpInf = Inr True"
| "val_less x (Mat A) = Inl TypeError"

text \<open>Modelled from the spec: what one sweep of the missing module \<^verbatim>\<open>.sample\<close> draws
  from the random stream: the outcomes of the five conjugate
  draws, the proposal noise \<open>d_eps\<close> and the outcome \<open>d_accept\<close> of the acceptance test
  for an in-domain proposal.\<close>

record sweep_draw =
  d_Alphas :: ndarray
  d_Betas :: ndarray
  d_Sigma2 :: real
  d_Tau2 :: real
  d_Gammas :: ndarray
  d_eps :: real
  d_accept :: bool

definition count_rejected :: "configs \<Rightarrow> configs" where
  "count_rejected cfg = cfg\<lparr>Rho := (Rho cfg)\<lparr>rejected := rejected (Rho cfg) + 1\<rparr>\<rparr>"

definition count_accepted :: "configs \<Rightarrow> configs" where
  "count_accepted cfg = cfg\<lparr>Rho := (Rho cfg)\<lparr>accepted := accepted (Rho cfg) + 1\<rparr>\<rparr>"

text \<open>
  Modelled from the spec: the tuning policy of the missing sweep (section 4.3). An
  adaptation cycle is complete after a fixed number \<open>period\<close> of Metropolis trials, which
  the specification leaves open and which is a parameter here. At the end of a cycle, as
  long as \<open>adapt\<close> is set and no more than \<open>max_adapt\<close> cycles are complete, the acceptance
  rate \<open>accepted / (accepted + rejected)\<close> of the running counters is compared with the
  corridor: above \<open>ar_hi\<close> the scale \<open>jump\<close> is multiplied by \<open>adapt_step\<close>, below \<open>ar_low\<close>
  it is divided by it, else it is left alone. Without a trial there is no rate and no
  adjustment. In every other sweep \<open>jump\<close> is frozen.
\<close>

definition adapt_jump :: "nat \<Rightarrow> rho_configs \<Rightarrow> error + rho_configs" where
  "adapt_jump period c =
     (let trials = accepted c + rejected c in
      if adapt c \<and> 0 < period \<and> 0 < trials \<and> trials mod int period = 0
           \<and> trials div int period \<le> max_adapt c
      then (let r = real_of_int (accepted c) / real_of_int trials in
            if r > ar_hi c then Inr (c\<lparr>jump := jump c * adapt_step c\<rparr>)
            else if r < ar_low c
            then (if adapt_step c = 0 then Inl ZeroDivisionError
                  else Inr (c\<lparr>jump := jump c / adapt_step c\<rparr>))
            else Inr c)
      else Inr c)"

definition after_trial :: "nat \<Rightarrow> configs \<Rightarrow> error + configs" where
  "after_trial period cfg = ebind (adapt_jump period (Rho cfg)) (\<lambda>c. Inr (cfg\<lparr>Rho := c\<rparr>))"

text \<open>
  Modelled from the spec: the update sweep \<^verbatim>\<open>sample\<close> of the module \<^verbatim>\<open>.sample\<close> is not
  part of \<^verbatim>\<open>model.py\<close>. The specification describes it as \<^verbatim>\<open>advance\<close>: it updates
  \<open>Alphas\<close>, \<open>Betas\<close>, \<open>Sigma2\<close>, \<open>Tau2\<close>, \<open>Gammas\<close> by conjugate draws (whose formulas it
  leaves open, so their outcomes come from the stream), and \<open>Rho\<close> by a Metropolis step:
  propose \<open>Rho' = Rho + jump * eps\<close>; reject at once when \<open>Rho'\<close> is not in
  \<open>(Rho_min, Rho_max)\<close>; else accept with the probability of the posterior ratio; every
  acceptance or rejection is counted and followed by the tuning policy above; when \<open>Rho\<close>
  changes, \<open>B\<close> and \<open>BZGammas\<close> are recomputed. The private state of the sweep is its
  position in the stream.
\<close>

definition spec_sweep ::
  "nat \<Rightarrow> (nat \<Rightarrow> sweep_draw) \<Rightarrow> nat \<Rightarrow> hsdm \<Rightarrow> error + (nat \<times> hsdm)" where
  "spec_sweep period stream k self =
     (let d = stream k in
      case configs self of
        None \<Rightarrow> Inl (AttributeError ''configs'')
      | Some cfg \<Rightarrow>
         let st1 = update (state self)
               [(''Alphas'', Mat (d_Alphas d)), (''Betas'', Mat (d_Betas d)),
                (''Sigma2'', PyFloat (d_Sigma2 d)), (''Tau2'', PyFloat (d_Tau2 d)),
                (''Gammas'', Mat (d_Gammas d))]
         in
         ebind (ebind (attr st1 ''Rho'') as_float) (\<lambda>rho.
         ebind (attr st1 ''Rho_min'') (\<lambda>lo.
         ebind (attr st1 ''Rho_max'') (\<lambda>hi.
         let rho' = rho + jump (Rho cfg) * d_eps d in
         ebind (less_val lo rho') (\<lambda>above_min.
         ebind (val_less rho' hi) (\<lambda>below_max.
         if \<not> (above_min \<and> below_max)
         then ebind (after_trial period (count_rejected cfg)) (\<lambda>cfg1.
              Inr (Suc k, self\<lparr>state := st1, configs := Some cfg1\<rparr>))
         else if d_accept d
         then
           ebind (get_mat st1 ''Ij'') (\<lambda>Ij.
           ebind (get_mat st1 ''M'') (\<lambda>M.
           ebind (nd_sub Ij (scale rho' M)) (\<lambda>B.
           ebind (get_mat st1 ''ZGammas'') (\<lambda>ZGammas.
           ebind (np_dot B ZGammas) (\<lambda>BZGammas.
           ebind (after_trial period (count_accepted cfg)) (\<lambda>cfg1.
           Inr (Suc k, self\<lparr>state := update st1
                   [(''Rho'', PyFloat rho'), (''B'', Mat B), (''BZGammas'', Mat BZGammas)],
                 configs := Some cfg1\<rparr>)))))))
         else ebind (after_trial period (count_rejected cfg)) (\<lambda>cfg1.
              Inr (Suc k, self\<lparr>state := st1, configs := Some cfg1\<rparr>))))))))"

text \<open>The domain invariant: the state holds a float \<open>Rho\<close> strictly between its two
  bounds.\<close>

definition Rho_in_domain :: "ns \<Rightarrow> bool" where
  "Rho_in_domain st =
     (case (st ''Rho_min'', st ''Rho'', st ''Rho_max'') of
        (Some lo, Some (PyFloat rho), Some hi) \<Rightarrow>
           less_val lo rho = Inr True \<and> val_less rho hi = Inr True
      | _ \<Rightarrow> False)"

definition all_in_domain :: "ns \<Rightarrow> pyval list \<Rightarrow> bool" where
  "all_in_domain st vs = list_all (\<lambda>v. Rho_in_domain (st(''Rho'' \<mapsto> v))) vs"

section \<open>Example inputs\<close>

text \<open>
  Three units in three groups, each group the neighbour of the other two with equal
  weights. The eigenvalues of that row-standardised matrix are \<open>1\<close> and \<open>- 1 / 2\<close>
  (twice), which is what the eigenvalue collaborator of the example returns.
\<close>

definition no_options :: options where
  "no_options = \<lparr>kw_extra_tracked_params = None, kw_Sigma2_s0 = None, kw_Sigma2_v0 = None,
     kw_Betas_cov0 = None, kw_Betas_mean0 = None, kw_Tau2_s0 = None, kw_Tau2_v0 = None,
     kw_Gammas_cov0 = None, kw_Gammas_mean0 = None, kw_truncate = None, kw_tuning = None,
     kw_rho_jump = None, kw_rho_ar_low = None, kw_rho_ar_hi = None, kw_rho_proposal = None,
     kw_rho_adapt_step = None\<rparr>"

definition ex_W3 :: weights where
  "ex_W3 = \<lparr>W_n = 3, W_sparse = NdArray (3, 3)
     [[0, 1 / 2, 1 / 2], [1 / 2, 0, 1 / 2], [1 / 2, 1 / 2, 0]]\<rparr>"

definition ex_stream :: "nat \<Rightarrow> sweep_draw" where
  "ex_stream k = \<lparr>d_Alphas = np_zeros 3 1, d_Betas = NdArray (1, 1) [[1]], d_Sigma2 = 1,
     d_Tau2 = 1, d_Gammas = NdArray (1, 1) [[1]],
     d_eps = (if k = 0 then 1 else - 4), d_accept = True\<rparr>"

definition ex_env :: "nat collaborators" where
  "ex_env = \<lparr>verify_weights = (\<lambda>W M t. Inr (W, M)),
     verify_Delta_members =
       (\<lambda>D m N J. case D of None \<Rightarrow> Inl (CollaboratorError ''Delta'') | Some d \<Rightarrow> Inr (d, [0, 1, 2])),
     verify_covariates = (\<lambda>X W. Inr X),
     speigen_range = (\<lambda>M. Inr (NpF (- 1 / 2), NpF 1)),
     sample_sweep = spec_sweep 1 ex_stream\<rparr>"

definition ex_args :: hsdm_args where
  "ex_args = \<lparr>a_y = NdArray (3, 1) [[1], [0], [2]], a_X = NdArray (3, 1) [[1], [2], [3]],
     a_W = ex_W3, a_M = ex_W3, a_Z = Some (NdArray (3, 1) [[1], [1], [1]]),
     a_Delta = Some (np_identity 3), a_membership = None, a_transform = ''r'',
     a_n_samples = Some 2, a_verbose = 0, a_options = no_options\<rparr>"

text \<open>Two units in two groups, each the only neighbour of the other: the eigenvalues
  are \<open>- 1\<close> and \<open>1\<close>, and the starting value \<open>- 1 / (J - 1)\<close> is \<open>- 1\<close>.\<close>

definition ex_W2 :: weights where
  "ex_W2 = \<lparr>W_n = 2, W_sparse = NdArray (2, 2) [[0, 1], [1, 0]]\<rparr>"

definition ex_stream2 :: "nat \<Rightarrow> sweep_draw" where
  "ex_stream2 k = \<lparr>d_Alphas = np_zeros 2 1, d_Betas = NdArray (1, 1) [[1]], d_Sigma2 = 1,
     d_Tau2 = 1, d_Gammas = NdArray (1, 1) [[1]], d_eps = - 1, d_accept = True\<rparr>"

definition ex_env2 :: "nat collaborators" where
  "ex_env2 = ex_env\<lparr>speigen_range := (\<lambda>M. Inr (NpF (- 1), NpF 1)),
     sample_sweep := spec_sweep 1 ex_stream2\<rparr>"

definition ex_args2 :: hsdm_args where
  "ex_args2 = \<lparr>a_y = NdArray (2, 1) [[1], [0]], a_X = NdArray (2, 1) [[1], [2]],
     a_W = ex_W2, a_M = ex_W2, a_Z = Some (NdArray (2, 1) [[1], [1]]),
     a_Delta = Some (np_identity 2), a_membership = None, a_transform = ''r'',
     a_n_samples = Some 1, a_verbose = 0, a_options = no_options\<rparr>"

text \<open>Two groups whose matrix has the eigenvalues \<open>0\<close> and \<open>1\<close>.\<close>

definition ex_W0 :: weights where
  "ex_W0 = \<lparr>W_n = 2, W_sparse = NdArray (2, 2) [[1 / 2, 1 / 2], [1 / 2, 1 / 2]]\<rparr>"

text \<open>The names \<^verbatim>\<open>_setup_data\<close> and \<^verbatim>\<open>_setup_initial_values\<close> store, and the state
  \<^verbatim>\<open>Base_HSDM.__init__\<close> starts from.\<close>

definition data_keys :: "string list" where
  "data_keys = [''In'', ''Ij'', ''Sigma2_s0'', ''Sigma2_v0'', ''Betas_cov0'', ''Betas_mean0'',
     ''Tau2_s0'', ''Tau2_v0'', ''Gammas_cov0'', ''Gammas_mean0'', ''Betas_covm'', ''Gammas_covm'',
     ''Tau2_prod'', ''Sigma2_prod'', ''XtX'', ''ZtZ'', ''DeltatDelta'']"

definition init_keys :: "string list" where
  "init_keys = [''Betas'', ''Gammas'', ''Alphas'', ''Sigma2'', ''Tau2'', ''Rho'', ''B'',
     ''DeltaAlphas'', ''XBetas'', ''ZGammas'', ''BZGammas'']"

definition data_state :: "ndarray \<Rightarrow> ndarray \<Rightarrow> ndarray \<Rightarrow> ndarray \<Rightarrow> ndarray \<Rightarrow> ndarray \<Rightarrow> ns" where
  "data_state y X W M Zm Delta = update Map.empty
     [(''X'', Mat X), (''y'', Mat y), (''W'', Mat W), (''M'', Mat M),
      (''Z'', Mat Zm), (''Delta'', Mat Delta), (''N'', PyInt (int (fst (shape X)))),
      (''J'', PyInt (int (fst (shape M)))), (''p'', PyInt (int (snd (shape X)))),
      (''q'', PyInt (int (snd (shape Zm))))]"

text \<open>A state as \<^verbatim>\<open>Base_HSDM.__init__\<close> and \<^verbatim>\<open>_setup_data\<close> leave it for the
  three-group example, restricted to what \<^verbatim>\<open>_setup_initial_values\<close> reads.\<close>

definition ex_ready :: hsdm where
  "ex_ready = new_hsdm\<lparr>state :=
     [''p'' \<mapsto> PyInt 1, ''q'' \<mapsto> PyInt 1, ''J'' \<mapsto> PyInt 3, ''Ij'' \<mapsto> Mat (np_identity 3),
      ''M'' \<mapsto> Mat (W_sparse ex_W3), ''Delta'' \<mapsto> Mat (np_identity 3),
      ''X'' \<mapsto> Mat (NdArray (3, 1) [[1], [2], [3]]), ''Z'' \<mapsto> Mat (NdArray (3, 1) [[1], [1], [1]])]\<rparr>"

text \<open>An instance with the six sampled values and a fresh trace, and collaborators whose
  sweep changes nothing but its own counter.\<close>

definition ex_sampler :: hsdm where
  "ex_sampler = new_hsdm\<lparr>state :=
       [''Alphas'' \<mapsto> Mat (np_zeros 3 1), ''Betas'' \<mapsto> Mat (np_zeros 1 1), ''Sigma2'' \<mapsto> PyInt 2,
        ''Tau2'' \<mapsto> PyInt 2, ''Gammas'' \<mapsto> Mat (np_zeros 1 1), ''Rho'' \<mapsto> PyFloat (- 1 / 2)],
     trace := fresh_trace Map.empty SAMPLERS_items, traced_params := Some SAMPLERS,
     verbose := Some 0\<rparr>"

definition ex_env_count :: "nat collaborators" where
  "ex_env_count = ex_env\<lparr>sample_sweep := (\<lambda>r s. Inr (Suc r, s))\<rparr>"

text \<open>The invariant of the sampling loop: \<open>Rho\<close> is in its domain and so is every value
  recorded for it so far.\<close>

definition Rho_invariant :: "hsdm \<Rightarrow> bool" where
  "Rho_invariant s \<longleftrightarrow>
     Rho_in_domain (state s)
     \<and> (case trace s ''Rho'' of None \<Rightarrow> True | Some vs \<Rightarrow> all_in_domain (state s) vs)"

text \<open>
  The sampling loop in the words of the specification (section 4.4): repeat, for each
  draw, one call of the sweep and then one value appended per traced name.
  \<open>draw_chain env names (r, s) ts (r', s')\<close> says that \<open>ts\<close> are the instances the
  successive calls of the sweep returned, each call made on the instance the previous
  one returned with the values of \<open>names\<close> recorded, starting from \<open>s\<close> with the sweep's
  private state \<open>r\<close> and ending in \<open>s'\<close> with \<open>r'\<close>.
\<close>

fun draw_chain ::
  "'r collaborators \<Rightarrow> string list \<Rightarrow> 'r \<times> hsdm \<Rightarrow> hsdm list \<Rightarrow> 'r \<times> hsdm \<Rightarrow> bool" where
  "draw_chain env names rs [] rs' \<longleftrightarrow> rs' = rs"
| "draw_chain env names rs (t # ts) rs' \<longleftrightarrow>
     (case sample_sweep env (fst rs) (snd rs) of
        Inl e \<Rightarrow> False
      | Inr (r1, t1) \<Rightarrow>
          t1 = t \<and>
          (case record_params (state t) names (trace t) of
             Inl e \<Rightarrow> False
           | Inr tr \<Rightarrow> draw_chain env names (r1, t\<lparr>trace := tr\<rparr>) ts rs'))"

text \<open>A sequence of calls \<^verbatim>\<open>sample(n)\<close> on an instance, one per element of the list.\<close>

fun sample_calls ::
  "'r collaborators \<Rightarrow> int list \<Rightarrow> 'r world \<times> hsdm \<Rightarrow> error + ('r world \<times> hsdm)" where
  "sample_calls env [] ws = Inr ws"
| "sample_calls env (ndraws # later) ws =
     ebind (sample env ws ndraws False) (\<lambda>(w, s, ret). sample_calls env later (w, s))"

text \<open>The same instance after earlier draws: the list of \<open>Rho\<close> already holds a value.\<close>

definition ex_sampler_used :: hsdm where
  "ex_sampler_used = ex_sampler\<lparr>trace := (trace ex_sampler)(''Rho'' \<mapsto> [PyFloat 7])\<rparr>"

text \<open>Options that switch the tuning of \<open>jump\<close> on, for one adaptation cycle.\<close>

definition ex_tuned :: options where
  "ex_tuned = no_options\<lparr>kw_tuning := Some 1\<rparr>"

section \<open>Basic facts\<close>

lemma ebind_Inl [simp]: "ebind (Inl e) f = Inl e"
  by (simp add: ebind_def)

lemma ebind_Inr [simp]: "ebind (Inr x) f = f x"
  by (simp add: ebind_def)

lemma ebind_eq_Inr: "ebind m f = Inr y \<longleftrightarrow> (\<exists>x. m = Inr x \<and> f x = Inr y)"
  by (cases m) simp_all

lemma update_Nil [simp]: "update st [] = st"
  by (simp add: update_def)

lemma update_Cons [simp]: "update st ((k, v) # kvs) = update (st(k \<mapsto> v)) kvs"
  by (simp add: update_def)

lemma str_nat_small: "n < 10 \<Longrightarrow> str_nat n = [digit_char n]"
  by (simp add: str_nat.simps)

lemma sample_loop_nonpos: "ndraws \<le> 0 \<Longrightarrow> sample_loop env ws ndraws = Inr ws"
  by (simp add: sample_loop.simps)

lemma sample_loop_pos:
  "ndraws > 0 \<Longrightarrow> sample_loop env ws ndraws =
     (case verbose (snd ws) of
        None \<Rightarrow> Inl (AttributeError ''_verbose'')
      | Some v \<Rightarrow>
          (case draw env (report (fst ws) v ndraws, snd ws) of
             Inl e \<Rightarrow> Inl e
           | Inr ws1 \<Rightarrow> sample_loop env ws1 (ndraws - 1)))"
  by (subst sample_loop.simps) simp

lemmas setup_defs =
  setup_data_def setup_configs_def setup_truncation_def setup_initial_values_def
  get_dim_def get_int_def get_mat_def attr_def kw_pop_def

lemmas array_defs =
  np_identity_def np_eye_def np_zeros_def np_dot_def nd_sub_def T_def column_def scale_def

lemmas run_defs =
  HSDM_init_def Base_HSDM_init_def new_hsdm_def sample_def draw_def report_def deref_def
  fresh_trace_def SAMPLERS_def SAMPLERS_items_def import_model_def
  spec_sweep_def count_rejected_def count_accepted_def adapt_jump_def after_trial_def

lemmas ex_defs =
  ex_env_def ex_args_def ex_W3_def ex_stream_def no_options_def
  ex_env2_def ex_args2_def ex_W2_def ex_stream2_def

section \<open>What the set-up methods change\<close>

lemma update_other: "k \<notin> fst ` set kvs \<Longrightarrow> update st kvs k = st k"
  by (induction kvs arbitrary: st) (auto simp: update_def)

lemma setup_data_frame:
  assumes "setup_data s kw = Inr (s', l)"
  shows "l = kw" and "trace s' = trace s" and "traced_params s' = traced_params s"
    and "verbose s' = verbose s"
    and "k \<notin> set data_keys \<Longrightarrow> state s' k = state s k"
  using assms unfolding setup_data_def Let_def ebind_eq_Inr data_keys_def
  by auto

lemma setup_configs_frame:
  "trace (setup_configs s kw) = trace s" "traced_params (setup_configs s kw) = traced_params s"
  "verbose (setup_configs s kw) = verbose s" "state (setup_configs s kw) = state s"
  by (simp_all add: setup_configs_def Let_def)

lemma setup_truncation_eq:
  assumes "state self ''M'' = Some (Mat M)" and "speigen_range env M = Inr (e1, e2)"
  shows "setup_truncation env self =
     (if e1 = PyF 0 \<or> e2 = PyF 0 then Inl ZeroDivisionError
      else Inr (self\<lparr>state := (state self)
             (''Rho_min'' \<mapsto> (if scalar_val e1 = 0 then NpInf else PyFloat (1 / scalar_val e1)),
              ''Rho_max'' \<mapsto> (if scalar_val e2 = 0 then NpInf else PyFloat (1 / scalar_val e2)))\<rparr>))"
  using assms by (cases e1; cases e2) (simp_all add: setup_truncation_def get_mat_def attr_def)

lemma setup_truncation_frame:
  assumes "setup_truncation env s = Inr s'"
  shows "trace s' = trace s" and "traced_params s' = traced_params s"
    and "verbose s' = verbose s"
    and "k \<noteq> ''Rho_min'' \<Longrightarrow> k \<noteq> ''Rho_max'' \<Longrightarrow> state s' k = state s k"
  using assms by (auto simp: setup_truncation_def ebind_eq_Inr)

lemma setup_initial_values_frame:
  assumes "setup_initial_values s = Inr s'"
  shows "trace s' = trace s" and "traced_params s' = traced_params s"
    and "verbose s' = verbose s"
    and "k \<notin> set init_keys \<Longrightarrow> state s' k = state s k"
  using assms unfolding setup_initial_values_def Let_def ebind_eq_Inr init_keys_def
  by auto

lemma setup_truncation_ignores_configs:
  "map_sum id state (setup_truncation env (self\<lparr>configs := c\<rparr>)) = map_sum id state (setup_truncation env self)"
  by (auto simp: setup_truncation_def ebind_def split: sum.splits)

lemma Base_HSDM_init_Inr:
  assumes "Base_HSDM_init env w self y X W M Z Delta n cfgs = Inr (w', s')"
  obtains Zm names s5 s7 s8 where
    "Z = Some Zm" and "kw_extra_tracked_params cfgs = None" and "heap w SAMPLERS = Some names"
    and "setup_data (self\<lparr>state := data_state y X W M Zm Delta,
            trace := fresh_trace Map.empty names, traced_params := Some SAMPLERS\<rparr>) cfgs = Inr (s5, cfgs)"
    and "setup_truncation env (setup_configs s5 cfgs) = Inr s7"
    and "setup_initial_values s7 = Inr s8"
    and "sample_loop env (w, s8\<lparr>cycles := Some 0\<rparr>) (case n of None \<Rightarrow> 1000 | Some i \<Rightarrow> i) = Inr (w', s')"
proof -
  from assms obtain Zm where Z: "Z = Some Zm"
    by (cases Z) (simp_all add: Base_HSDM_init_def case_prod_beta)
  from assms Z have ex: "kw_extra_tracked_params cfgs = None"
    by (cases "kw_extra_tracked_params cfgs") (simp_all add: Base_HSDM_init_def Let_def case_prod_beta)
  define s3 where "s3 = self\<lparr>state := data_state y X W M Zm Delta, trace := Map.empty,
    traced_params := Some SAMPLERS\<rparr>"
  from assms Z ex have run: "ebind (deref w (Some SAMPLERS)) (\<lambda>names.
      ebind (setup_data (s3\<lparr>trace := fresh_trace Map.empty names\<rparr>) cfgs) (\<lambda>(s5, l).
      ebind (setup_truncation env (setup_configs s5 l)) (\<lambda>s7.
      ebind (setup_initial_values s7) (\<lambda>s8.
      ebind (sample env (w, s8\<lparr>cycles := Some 0\<rparr>) (case n of None \<Rightarrow> 1000 | Some i \<Rightarrow> i) False)
        (\<lambda>(w1, s10, ret). Inr (w1, s10)))))) = Inr (w', s')"
    by (simp add: Base_HSDM_init_def Let_def case_prod_beta s3_def data_state_def del: update_Cons update_Nil)
  then obtain names where names: "deref w (Some SAMPLERS) = Inr names"
    and run1: "ebind (setup_data (s3\<lparr>trace := fresh_trace Map.empty names\<rparr>) cfgs) (\<lambda>(s5, l).
      ebind (setup_truncation env (setup_configs s5 l)) (\<lambda>s7.
      ebind (setup_initial_values s7) (\<lambda>s8.
      ebind (sample env (w, s8\<lparr>cycles := Some 0\<rparr>) (case n of None \<Rightarrow> 1000 | Some i \<Rightarrow> i) False)
        (\<lambda>(w1, s10, ret). Inr (w1, s10))))) = Inr (w', s')"
    unfolding ebind_eq_Inr [of "deref w (Some SAMPLERS)"] by blast
  from names have heap: "heap w SAMPLERS = Some names"
    by (simp add: deref_def split: option.splits)
  from run1 obtain s5 l where d: "setup_data (s3\<lparr>trace := fresh_trace Map.empty names\<rparr>) cfgs = Inr (s5, l)"
    and run2: "ebind (setup_truncation env (setup_configs s5 l)) (\<lambda>s7.
      ebind (setup_initial_values s7) (\<lambda>s8.
      ebind (sample env (w, s8\<lparr>cycles := Some 0\<rparr>) (case n of None \<Rightarrow> 1000 | Some i \<Rightarrow> i) False)
        (\<lambda>(w1, s10, ret). Inr (w1, s10)))) = Inr (w', s')"
    unfolding ebind_eq_Inr [of "setup_data _ _"] by auto
  have l: "l = cfgs" using setup_data_frame(1) [OF d] .
  from run2 obtain s7 s8 where t: "setup_truncation env (setup_configs s5 l) = Inr s7"
    and i: "setup_initial_values s7 = Inr s8"
    and run3: "ebind (sample env (w, s8\<lparr>cycles := Some 0\<rparr>) (case n of None \<Rightarrow> 1000 | Some i \<Rightarrow> i) False)
        (\<lambda>(w1, s10, ret). Inr (w1, s10)) = Inr (w', s')"
    unfolding ebind_eq_Inr [of "setup_truncation _ _"] ebind_eq_Inr [of "setup_initial_values _"] by auto
  from run3 have lp: "sample_loop env (w, s8\<lparr>cycles := Some 0\<rparr>) (case n of None \<Rightarrow> 1000 | Some i \<Rightarrow> i) = Inr (w', s')"
    by (auto simp: sample_def ebind_eq_Inr split: prod.splits)
  have eq: "s3\<lparr>trace := fresh_trace Map.empty names\<rparr> =
      self\<lparr>state := data_state y X W M Zm Delta,
            trace := fresh_trace Map.empty names, traced_params := Some SAMPLERS\<rparr>"
    by (simp add: s3_def)
  show thesis
    using that [OF Z ex heap d [unfolded eq l] t [unfolded l] i lp] .
qed

lemma Base_zero:
  assumes "speigen_range env M = Inr (e1, e2)" and "e1 = PyF 0 \<or> e2 = PyF 0"
  shows "Base_HSDM_init env w self y X W M Z Delta n cfgs \<noteq> Inr r"
proof
  assume ok: "Base_HSDM_init env w self y X W M Z Delta n cfgs = Inr r"
  obtain w' s' where r: "r = (w', s')" by (cases r)
  show False
  proof (rule Base_HSDM_init_Inr [OF ok [unfolded r]])
    fix Zm names s5 s7
    assume d: "setup_data (self\<lparr>state := data_state y X W M Zm Delta,
            trace := fresh_trace Map.empty names, traced_params := Some SAMPLERS\<rparr>) cfgs = Inr (s5, cfgs)"
      and t: "setup_truncation env (setup_configs s5 cfgs) = Inr s7"
    from setup_data_frame(5) [OF d, of "''M''"] have "state s5 ''M'' = Some (Mat M)"
      by (simp add: data_keys_def data_state_def)
    then have "state (setup_configs s5 cfgs) ''M'' = Some (Mat M)"
      by (simp add: setup_configs_frame)
    from setup_truncation_eq [OF this assms(1)] t assms(2) show False
      by simp
  qed
qed

section \<open>Detaching the trace\<close>

text \<open>
  C7. Claimed: \<^verbatim>\<open>sample\<close> with \<^verbatim>\<open>pop\<close> requested returns a deep copy of the trace and
  installs a fresh empty one. The code at that input: with no draws requested the
  call raises \<^verbatim>\<open>NameError\<close> for the name \<^verbatim>\<open>copy\<close>, and for no number of draws does a
  call with \<^verbatim>\<open>pop\<close> return anything.
\<close>

theorem sample_pop_raises_NameError:
  "sample env ws 0 True = Inl (NameError ''copy'')
     \<and> (\<forall>ndraws r. sample env ws ndraws True \<noteq> Inr r)"
  by (auto simp: sample_def sample_loop_nonpos ebind_eq_Inr split: prod.splits)

section \<open>Validation of the row count\<close>

text \<open>
  C8. When the validated weights \<open>W\<close> imply a unit count different from the row count
  of \<open>X\<close>, \<^verbatim>\<open>HSDM.__init__\<close> raises \<^verbatim>\<open>UserWarning\<close> with a message that renders both
  counts. The result is the exception: \<^verbatim>\<open>Base_HSDM.__init__\<close>, which builds the state
  and takes the draws, is not reached, whatever the collaborators and the world are.
\<close>

theorem HSDM_init_row_mismatch:
  assumes "verify_weights env (a_W args) (a_M args) (a_transform args) = Inr (W, M)"
    and "fst (shape (a_X args)) \<noteq> W_n W"
  shows "HSDM_init env w args =
     Inl (UserWarning (''Number of lower-level observations does not match between X (''
            @ str_nat (fst (shape (a_X args))) @ '') and W ('' @ str_nat (W_n W) @ '')''))"
  using assms by (simp add: HSDM_init_def Let_def mismatch_message_def)

theorem HSDM_init_row_mismatch_witness:
  "HSDM_init ex_env (import_model 0) (ex_args\<lparr>a_X := NdArray (2, 1) [[1], [2]]\<rparr>) =
     Inl (UserWarning ''Number of lower-level observations does not match between X (2) and W (3)'')"
proof -
  have v: "verify_weights ex_env (a_W (ex_args\<lparr>a_X := NdArray (2, 1) [[1], [2]]\<rparr>))
             (a_M (ex_args\<lparr>a_X := NdArray (2, 1) [[1], [2]]\<rparr>))
             (a_transform (ex_args\<lparr>a_X := NdArray (2, 1) [[1], [2]]\<rparr>)) = Inr (ex_W3, ex_W3)"
    by (simp add: ex_env_def ex_args_def)
  have n: "fst (shape (a_X (ex_args\<lparr>a_X := NdArray (2, 1) [[1], [2]]\<rparr>))) \<noteq> W_n ex_W3"
    by (simp add: ex_W3_def)
  show ?thesis
    using HSDM_init_row_mismatch [OF v n, of "import_model 0"]
    by (simp add: ex_W3_def str_nat_small digit_char_def)
qed

section \<open>The truncation bounds\<close>

text \<open>
  C3. When \<^verbatim>\<open>speigen_range\<close> returns two nonzero values for the group-level matrix
  \<open>M\<close> of the state, \<^verbatim>\<open>_setup_truncation\<close> completes and stores exactly their
  reciprocals as \<open>Rho_min\<close> and \<open>Rho_max\<close>.
\<close>

theorem setup_truncation_reciprocals:
  assumes "state self ''M'' = Some (Mat M)"
    and "speigen_range env M = Inr (e_min, e_max)"
    and "scalar_val e_min \<noteq> 0" and "scalar_val e_max \<noteq> 0"
  shows "\<exists>self'. setup_truncation env self = Inr self'
           \<and> state self' ''Rho_min'' = Some (PyFloat (1 / scalar_val e_min))
           \<and> state self' ''Rho_max'' = Some (PyFloat (1 / scalar_val e_max))"
  using assms by (cases e_min; cases e_max) (simp_all add: setup_truncation_def get_mat_def attr_def)

theorem setup_truncation_reciprocals_witness:
  "\<exists>self'. setup_truncation ex_env (new_hsdm\<lparr>state := [''M'' \<mapsto> Mat (W_sparse ex_W3)]\<rparr>) = Inr self'
           \<and> state self' ''Rho_min'' = Some (PyFloat (- 2))
           \<and> state self' ''Rho_max'' = Some (PyFloat 1)"
proof -
  have m: "state (new_hsdm\<lparr>state := [''M'' \<mapsto> Mat (W_sparse ex_W3)]\<rparr>) ''M'' = Some (Mat (W_sparse ex_W3))"
    by simp
  have e: "speigen_range ex_env (W_sparse ex_W3) = Inr (NpF (- 1 / 2), NpF 1)"
    by (simp add: ex_env_def)
  have n1: "scalar_val (NpF (- 1 / 2)) \<noteq> 0" and n2: "scalar_val (NpF 1) \<noteq> 0"
    by simp_all
  show ?thesis
    using setup_truncation_reciprocals [OF m e n1 n2] by simp
qed

text \<open>
  C2. Claimed: \<^verbatim>\<open>truncate='stable'\<close> fixes the bounds at \<open>(- 1, 1)\<close> and an explicit pair
  is used as given, which is also what the docstring of \<^verbatim>\<open>_setup_truncation\<close> says.
  The code at these inputs: on the three-group example, whose eigenvalue range is
  \<open>(- 1 / 2, 1)\<close>, the option is stored in the configuration and the bounds are
  \<open>(- 2, 1)\<close> both for \<^verbatim>\<open>'stable'\<close> and for the pair \<open>(- 1 / 2, 1 / 2)\<close>.
\<close>

theorem truncate_option_has_no_effect:
  "(\<exists>w' s'. HSDM_init ex_env (import_model 0)
        (ex_args\<lparr>a_n_samples := Some 0,
                 a_options := no_options\<lparr>kw_truncate := Some (TruncName ''stable'')\<rparr>\<rparr>) = Inr (w', s')
      \<and> map_option truncate' (configs s') = Some (TruncName ''stable'')
      \<and> state s' ''Rho_min'' = Some (PyFloat (- 2)) \<and> state s' ''Rho_max'' = Some (PyFloat 1))
   \<and> (\<exists>w' s'. HSDM_init ex_env (import_model 0)
        (ex_args\<lparr>a_n_samples := Some 0,
                 a_options := no_options\<lparr>kw_truncate := Some (TruncPair (- 1 / 2) (1 / 2))\<rparr>\<rparr>) = Inr (w', s')
      \<and> map_option truncate' (configs s') = Some (TruncPair (- 1 / 2) (1 / 2))
      \<and> state s' ''Rho_min'' = Some (PyFloat (- 2)) \<and> state s' ''Rho_max'' = Some (PyFloat 1))"
  by (simp add: run_defs setup_defs array_defs ex_defs sample_loop_nonpos Let_def upt_rec)

text \<open>
  C4. Claimed: a zero extremal eigenvalue makes the bound computation fail with a
  NumericalInstability error instead of giving an infinite bound. On the two-group
  matrix with eigenvalues \<open>0\<close> and \<open>1\<close> the constructor raises \<^verbatim>\<open>ZeroDivisionError\<close> when
  the eigenvalues are Python floats, and completes with an infinite \<open>Rho_min\<close> and one
  draw taken when they are NumPy scalars.
\<close>

theorem zero_eigenvalue_counterexample:
  "HSDM_init (ex_env2\<lparr>speigen_range := (\<lambda>M. Inr (PyF 0, PyF 1))\<rparr>) (import_model 0)
       (ex_args2\<lparr>a_W := ex_W0, a_M := ex_W0\<rparr>) = Inl ZeroDivisionError
   \<and> (\<exists>w' s'. HSDM_init (ex_env2\<lparr>speigen_range := (\<lambda>M. Inr (NpF 0, NpF 1))\<rparr>) (import_model 0)
       (ex_args2\<lparr>a_W := ex_W0, a_M := ex_W0\<rparr>) = Inr (w', s')
       \<and> state s' ''Rho_min'' = Some NpInf \<and> advance_calls w' = 1)"
  by (simp add: run_defs setup_defs array_defs ex_defs ex_W0_def sample_loop_nonpos sample_loop_pos Let_def upt_rec)

text \<open>
  C4, as the code has it: \<^verbatim>\<open>_setup_truncation\<close> has no check of its own. It raises
  exactly when one of the two values is a Python float zero, and then it is the
  \<^verbatim>\<open>ZeroDivisionError\<close> of the division, after which \<^verbatim>\<open>Base_HSDM.__init__\<close> never
  returns; a NumPy zero gives an infinite bound.
\<close>

theorem zero_eigenvalue_unguarded:
  assumes "speigen_range env M = Inr (e_min, e_max)"
  shows "(state self ''M'' = Some (Mat M) \<longrightarrow>
           setup_truncation env self =
             (if e_min = PyF 0 \<or> e_max = PyF 0 then Inl ZeroDivisionError
              else Inr (self\<lparr>state := (state self)
                     (''Rho_min'' \<mapsto> (if scalar_val e_min = 0 then NpInf else PyFloat (1 / scalar_val e_min)),
                      ''Rho_max'' \<mapsto> (if scalar_val e_max = 0 then NpInf else PyFloat (1 / scalar_val e_max)))\<rparr>)))
       \<and> (e_min = PyF 0 \<or> e_max = PyF 0 \<longrightarrow>
            (\<forall>r. Base_HSDM_init env w self0 y X W M Z Delta n cfgs \<noteq> Inr r))"
  using assms setup_truncation_eq [of self M env e_min e_max] Base_zero [OF assms]
  by blast

theorem zero_eigenvalue_unguarded_witness:
  "setup_truncation (ex_env\<lparr>speigen_range := (\<lambda>M. Inr (PyF 0, PyF 1))\<rparr>)
       (new_hsdm\<lparr>state := [''M'' \<mapsto> Mat (W_sparse ex_W0)]\<rparr>) = Inl ZeroDivisionError
   \<and> (\<forall>r. Base_HSDM_init (ex_env\<lparr>speigen_range := (\<lambda>M. Inr (PyF 0, PyF 1))\<rparr>) (import_model 0) new_hsdm
           (a_y ex_args2) (a_X ex_args2) (W_sparse ex_W0) (W_sparse ex_W0) (a_Z ex_args2)
           (np_identity 2) (Some 1) no_options \<noteq> Inr r)"
proof -
  have e: "speigen_range (ex_env\<lparr>speigen_range := (\<lambda>M. Inr (PyF 0, PyF 1))\<rparr>) (W_sparse ex_W0)
      = Inr (PyF 0, PyF 1)"
    by simp
  show ?thesis
    using zero_eigenvalue_unguarded [OF e, of "new_hsdm\<lparr>state := [''M'' \<mapsto> Mat (W_sparse ex_W0)]\<rparr>"
        "import_model 0" new_hsdm "a_y ex_args2" "a_X ex_args2" "W_sparse ex_W0" "a_Z ex_args2"
        "np_identity 2" "Some 1" no_options]
    by simp
qed

section \<open>The starting values\<close>

lemma setup_initial_values_reads_state:
  "state self2 = state self \<Longrightarrow>
     map_sum id state (setup_initial_values self2) = map_sum id state (setup_initial_values self)"
  by (auto simp: setup_initial_values_def Let_def ebind_def split: sum.splits)

text \<open>
  C5. On a state that holds the dimensions \<open>p\<close>, \<open>q\<close>, \<open>J\<close> and the matrices with
  shapes that fit, and for \<open>J \<noteq> 1\<close> (where \<open>- 1 / (J - 1)\<close> is defined),
  \<^verbatim>\<open>_setup_initial_values\<close> completes and assigns the zero vectors of shapes
  \<open>p \<times> 1\<close>, \<open>q \<times> 1\<close> and \<open>J \<times> 1\<close> to \<open>Betas\<close>, \<open>Gammas\<close> and \<open>Alphas\<close>, the integer 2
  to \<open>Sigma2\<close> and \<open>Tau2\<close>, and \<open>- 1 / (J - 1)\<close> to \<open>Rho\<close>. The method reads the state
  only and draws nothing at random: two instances with the same state get the same
  starting state, or the same exception.
\<close>

theorem setup_initial_values_assigns:
  assumes "state self ''p'' = Some (PyInt (int p))"
    and "state self ''q'' = Some (PyInt (int q))"
    and "state self ''J'' = Some (PyInt (int J))"
    and "state self ''Ij'' = Some (Mat Ij)"
    and "state self ''M'' = Some (Mat M)"
    and "state self ''Delta'' = Some (Mat Delta)"
    and "state self ''X'' = Some (Mat X)"
    and "state self ''Z'' = Some (Mat Z)"
    and "shape Ij = shape M" and "snd (shape M) = fst (shape Z)"
    and "snd (shape Delta) = J" and "snd (shape X) = p" and "snd (shape Z) = q"
    and "J \<noteq> 1"
  shows "(\<exists>self'. setup_initial_values self = Inr self'
            \<and> state self' ''Betas'' = Some (Mat (np_zeros p 1))
            \<and> state self' ''Gammas'' = Some (Mat (np_zeros q 1))
            \<and> state self' ''Alphas'' = Some (Mat (np_zeros J 1))
            \<and> state self' ''Sigma2'' = Some (PyInt 2)
            \<and> state self' ''Tau2'' = Some (PyInt 2)
            \<and> state self' ''Rho'' = Some (PyFloat (- 1 / (real J - 1))))
       \<and> (\<forall>self2. state self2 = state self \<longrightarrow>
            map_sum id state (setup_initial_values self2) = map_sum id state (setup_initial_values self))"
proof
  have J: "int J - 1 \<noteq> 0" using assms(14) by simp
  show "\<exists>self'. setup_initial_values self = Inr self'
            \<and> state self' ''Betas'' = Some (Mat (np_zeros p 1))
            \<and> state self' ''Gammas'' = Some (Mat (np_zeros q 1))
            \<and> state self' ''Alphas'' = Some (Mat (np_zeros J 1))
            \<and> state self' ''Sigma2'' = Some (PyInt 2)
            \<and> state self' ''Tau2'' = Some (PyInt 2)
            \<and> state self' ''Rho'' = Some (PyFloat (- 1 / (real J - 1)))"
    using assms(1-13) J
    by (simp add: setup_initial_values_def get_dim_def get_int_def get_mat_def attr_def Let_def
        np_dot_def nd_sub_def scale_def np_zeros_def)
  show "\<forall>self2. state self2 = state self \<longrightarrow>
            map_sum id state (setup_initial_values self2) = map_sum id state (setup_initial_values self)"
    using setup_initial_values_reads_state by blast
qed

theorem setup_initial_values_assigns_witness:
  "\<exists>self'. setup_initial_values ex_ready = Inr self'
      \<and> state self' ''Betas'' = Some (Mat (NdArray (1, 1) [[0]]))
      \<and> state self' ''Gammas'' = Some (Mat (NdArray (1, 1) [[0]]))
      \<and> state self' ''Alphas'' = Some (Mat (NdArray (3, 1) [[0], [0], [0]]))
      \<and> state self' ''Sigma2'' = Some (PyInt 2)
      \<and> state self' ''Tau2'' = Some (PyInt 2)
      \<and> state self' ''Rho'' = Some (PyFloat (- 1 / 2))"
proof -
  have h: "state ex_ready ''p'' = Some (PyInt (int 1))" "state ex_ready ''q'' = Some (PyInt (int 1))"
    "state ex_ready ''J'' = Some (PyInt (int 3))" "state ex_ready ''Ij'' = Some (Mat (np_identity 3))"
    "state ex_ready ''M'' = Some (Mat (W_sparse ex_W3))"
    "state ex_ready ''Delta'' = Some (Mat (np_identity 3))"
    "state ex_ready ''X'' = Some (Mat (NdArray (3, 1) [[1], [2], [3]]))"
    "state ex_ready ''Z'' = Some (Mat (NdArray (3, 1) [[1], [1], [1]]))"
    by (simp_all add: ex_ready_def)
  have g: "shape (np_identity 3) = shape (W_sparse ex_W3)"
    "snd (shape (W_sparse ex_W3)) = fst (shape (NdArray (3, 1) [[1], [1], [1]]))"
    "snd (shape (np_identity 3)) = 3" "snd (shape (NdArray (3, 1) [[1], [2], [3]])) = 1"
    "snd (shape (NdArray (3, 1) [[1], [1], [1]])) = 1" "(3::nat) \<noteq> 1"
    by (simp_all add: np_identity_def ex_W3_def)
  from setup_initial_values_assigns [OF h g]
  show ?thesis
    by (simp add: np_zeros_def numeral_3_eq_3)
qed

section \<open>Draws and the trace\<close>

lemma record_params_other:
  "record_params st names tr = Inr tr' \<Longrightarrow> k \<notin> set names \<Longrightarrow> tr' k = tr k"
  by (induction names arbitrary: tr) (auto split: option.splits)

lemma record_params_in:
  "record_params st names tr = Inr tr' \<Longrightarrow> distinct names \<Longrightarrow> k \<in> set names \<Longrightarrow>
     \<exists>xs v. tr k = Some xs \<and> st k = Some v \<and> tr' k = Some (xs @ [v])"
proof (induction names arbitrary: tr)
  case Nil
  then show ?case by simp
next
  case (Cons a names)
  from Cons.prems(1) obtain xs v where a: "tr a = Some xs" "st a = Some v"
    and rest: "record_params st names (tr(a \<mapsto> xs @ [v])) = Inr tr'"
    by (auto split: option.splits)
  show ?case
  proof (cases "k = a")
    case True
    with Cons.prems(2) have "k \<notin> set names" by simp
    from record_params_other [OF rest this] a True show ?thesis by simp
  next
    case False
    with Cons.prems have "k \<in> set names" "distinct names" by simp_all
    from Cons.IH [OF rest this(2) this(1)] False show ?thesis by simp
  qed
qed

lemma deref_heap: "heap w1 = heap w2 \<Longrightarrow> deref w1 a = deref w2 a"
  by (cases a) (simp_all add: deref_def)

lemma report_frame [simp]:
  "heap (report w v n) = heap w" "advance_calls (report w v n) = advance_calls w"
  "rng (report w v n) = rng w"
  by (simp_all add: report_def)

lemma draw_effect:
  assumes "keeps_trace env" and "draw env (w, s) = Inr (w', s')"
    and "deref w (traced_params s) = Inr names" and "distinct names"
  shows "advance_calls w' = Suc (advance_calls w)" and "heap w' = heap w"
    and "traced_params s' = traced_params s"
    and "k \<in> set names \<Longrightarrow> \<exists>xs v. trace s k = Some xs \<and> state s' k = Some v \<and> trace s' k = Some (xs @ [v])"
    and "k \<notin> set names \<Longrightarrow> trace s' k = trace s k"
proof -
  from assms(2) obtain r s1 names1 tr where
      sw: "sample_sweep env (rng w) s = Inr (r, s1)"
    and dr: "deref (w\<lparr>advance_calls := Suc (advance_calls w), rng := r\<rparr>) (traced_params s1) = Inr names1"
    and rp: "record_params (state s1) names1 (trace s1) = Inr tr"
    and w': "w' = w\<lparr>advance_calls := Suc (advance_calls w), rng := r\<rparr>"
    and s': "s' = s1\<lparr>trace := tr\<rparr>"
    by (auto simp: draw_def ebind_eq_Inr Let_def)
  from assms(1) sw have fr: "trace s1 = trace s" "traced_params s1 = traced_params s"
    by (auto simp: keeps_trace_def)
  have "deref (w\<lparr>advance_calls := Suc (advance_calls w), rng := r\<rparr>) (traced_params s1)
      = deref w (traced_params s)"
    using fr deref_heap [of "w\<lparr>advance_calls := Suc (advance_calls w), rng := r\<rparr>" w] by simp
  with dr assms(3) have n1: "names1 = names" by simp
  show "advance_calls w' = Suc (advance_calls w)" "heap w' = heap w"
    "traced_params s' = traced_params s"
    using w' s' fr by simp_all
  show "\<exists>xs v. trace s k = Some xs \<and> state s' k = Some v \<and> trace s' k = Some (xs @ [v])"
    if "k \<in> set names"
    using record_params_in [OF rp [unfolded n1] assms(4) that] fr s' by simp
  show "trace s' k = trace s k" if "k \<notin> set names"
    using record_params_other [OF rp [unfolded n1] that] fr s' by simp
qed

lemma sample_loop_effect:
  "sample_loop env ws n = Inr ws' \<Longrightarrow> deref (fst ws) (traced_params (snd ws)) = Inr names \<Longrightarrow>
     keeps_trace env \<Longrightarrow> distinct names \<Longrightarrow>
     advance_calls (fst ws') = advance_calls (fst ws) + nat n
     \<and> heap (fst ws') = heap (fst ws)
     \<and> traced_params (snd ws') = traced_params (snd ws)
     \<and> (\<forall>k\<in>set names. \<forall>xs. trace (snd ws) k = Some xs \<longrightarrow>
           (\<exists>ys. trace (snd ws') k = Some (xs @ ys) \<and> length ys = nat n
                 \<and> (0 < n \<longrightarrow> state (snd ws') k = Some (last ys))))"
proof (induction env ws n arbitrary: ws' rule: sample_loop.induct)
  case (1 env ws ndraws)
  show ?case
  proof (cases "ndraws > 0")
    case False
    with "1.prems"(1) have "ws' = ws" by (simp add: sample_loop_nonpos)
    with False show ?thesis by simp
  next
    case True
    from "1.prems"(1) True obtain v ws1 where v: "verbose (snd ws) = Some v"
      and d: "draw env (report (fst ws) v ndraws, snd ws) = Inr ws1"
      and l: "sample_loop env ws1 (ndraws - 1) = Inr ws'"
      by (auto simp: sample_loop_pos split: option.splits sum.splits)
    obtain w1 s1 where ws1: "ws1 = (w1, s1)" by (cases ws1)
    have dr0: "deref (report (fst ws) v ndraws) (traced_params (snd ws)) = Inr names"
      using "1.prems"(2) deref_heap [of "report (fst ws) v ndraws" "fst ws"] by simp
    note de = draw_effect [OF "1.prems"(3) d [unfolded ws1] dr0 "1.prems"(4)]
    have dr1: "deref (fst ws1) (traced_params (snd ws1)) = Inr names"
      using dr0 de(2,3) ws1 deref_heap [of w1 "report (fst ws) v ndraws"] by simp
    note IH = "1.IH" [OF True v d l dr1 "1.prems"(3,4)]
    have calls: "advance_calls (fst ws') = advance_calls (fst ws) + nat ndraws"
      using IH de(1) ws1 True by (simp add: nat_diff_distrib)
    have heap: "heap (fst ws') = heap (fst ws)"
      using IH de(2) ws1 by simp
    have tp: "traced_params (snd ws') = traced_params (snd ws)"
      using IH de(3) ws1 by simp
    have tr: "\<exists>ys. trace (snd ws') k = Some (xs @ ys) \<and> length ys = nat ndraws
                 \<and> (0 < ndraws \<longrightarrow> state (snd ws') k = Some (last ys))"
      if k: "k \<in> set names" and xs: "trace (snd ws) k = Some xs" for k xs
    proof -
      from de(4) [OF k] xs obtain x where x: "state s1 k = Some x" "trace s1 k = Some (xs @ [x])"
        by auto
      from IH have "\<forall>k\<in>set names. \<forall>xs. trace (snd ws1) k = Some xs \<longrightarrow>
           (\<exists>ys. trace (snd ws') k = Some (xs @ ys) \<and> length ys = nat (ndraws - 1)
                 \<and> (0 < ndraws - 1 \<longrightarrow> state (snd ws') k = Some (last ys)))"
        by blast
      with k x(2) ws1 have "\<exists>ys. trace (snd ws') k = Some ((xs @ [x]) @ ys)
          \<and> length ys = nat (ndraws - 1)
          \<and> (0 < ndraws - 1 \<longrightarrow> state (snd ws') k = Some (last ys))"
        by (metis snd_conv)
      then obtain ys where ys: "trace (snd ws') k = Some ((xs @ [x]) @ ys)"
        "length ys = nat (ndraws - 1)" "0 < ndraws - 1 \<longrightarrow> state (snd ws') k = Some (last ys)"
        by blast
      have "state (snd ws') k = Some (last (x # ys))"
      proof (cases "0 < ndraws - 1")
        case True
        with ys have "ys \<noteq> []" by auto
        with ys True show ?thesis by simp
      next
        case False
        with l have "ws' = ws1" by (simp add: sample_loop_nonpos)
        moreover from False ys have "ys = []" by simp
        ultimately show ?thesis using x ws1 by simp
      qed
      moreover have "length (x # ys) = nat ndraws" using ys True by simp
      ultimately show ?thesis using ys(1) by (intro exI [of _ "x # ys"]) simp
    qed
    show ?thesis using calls heap tp tr by blast
  qed
qed



lemma spec_sweep_keeps_trace:
  "spec_sweep period stream k s = Inr (k', s') \<Longrightarrow>
     trace s' = trace s \<and> traced_params s' = traced_params s"
  by (auto simp: spec_sweep_def Let_def ebind_eq_Inr split: option.splits if_splits)

lemma keeps_trace_spec_sweep: "sample_sweep env = spec_sweep period stream \<Longrightarrow> keeps_trace env"
  unfolding keeps_trace_def using spec_sweep_keeps_trace by metis

lemma sample_Inr:
  "sample env ws n pop = Inr (w', s', ret) \<longleftrightarrow> sample_loop env ws n = Inr (w', s') \<and> \<not> pop \<and> ret = None"
  by (auto simp: sample_def ebind_eq_Inr)

section \<open>Construction\<close>

lemma HSDM_init_Inr:
  assumes "HSDM_init env w args = Inr (w', s')"
  obtains W M Delta X where
    "verify_weights env (a_W args) (a_M args) (a_transform args) = Inr (W, M)"
    and "fst (shape (a_X args)) = W_n W"
    and "Base_HSDM_init env w (new_hsdm\<lparr>W_attr := Some W, M_attr := Some M,
             verbose := Some (a_verbose args)\<rparr>) (a_y args) X (W_sparse W) (W_sparse M) (a_Z args)
           Delta (Some (case a_n_samples args of None \<Rightarrow> 1000 | Some i \<Rightarrow> i)) (a_options args)
         = Inr (w', s')"
  using assms
  by (auto simp: HSDM_init_def Let_def ebind_eq_Inr split: if_splits)



lemma keeps_trace_ex_env: "keeps_trace ex_env"
  by (rule keeps_trace_spec_sweep [of _ 1 ex_stream]) (simp add: ex_env_def)



section \<open>The list of traced names\<close>

lemma draw_frame:
  assumes "draw env (w, s) = Inr (w', s')" and "keeps_trace env"
  shows "heap w' = heap w \<and> traced_params s' = traced_params s"
proof -
  from assms(1) obtain r s1 tr where
      sw: "sample_sweep env (rng w) s = Inr (r, s1)"
    and w': "w' = w\<lparr>advance_calls := Suc (advance_calls w), rng := r\<rparr>"
    and s': "s' = s1\<lparr>trace := tr\<rparr>"
    by (auto simp: draw_def ebind_eq_Inr Let_def)
  from assms(2) sw have "traced_params s1 = traced_params s"
    by (auto simp: keeps_trace_def)
  with w' s' show ?thesis by simp
qed

lemma sample_loop_frame:
  "sample_loop env ws n = Inr ws' \<Longrightarrow> keeps_trace env \<Longrightarrow>
     heap (fst ws') = heap (fst ws) \<and> traced_params (snd ws') = traced_params (snd ws)"
proof (induction env ws n arbitrary: ws' rule: sample_loop.induct)
  case (1 env ws ndraws)
  show ?case
  proof (cases "ndraws > 0")
    case False
    with "1.prems"(1) have "ws' = ws" by (simp add: sample_loop_nonpos)
    then show ?thesis by simp
  next
    case True
    from "1.prems"(1) True obtain v ws1 where v: "verbose (snd ws) = Some v"
      and d: "draw env (report (fst ws) v ndraws, snd ws) = Inr ws1"
      and l: "sample_loop env ws1 (ndraws - 1) = Inr ws'"
      by (auto simp: sample_loop_pos split: option.splits sum.splits)
    obtain w1 s1 where ws1: "ws1 = (w1, s1)" by (cases ws1)
    from draw_frame [OF d [unfolded ws1] "1.prems"(2)] "1.IH" [OF True v d l "1.prems"(2)] ws1
    show ?thesis by simp
  qed
qed

lemma Base_HSDM_init_alias:
  assumes "Base_HSDM_init env w self y X W M Z Delta n cfgs = Inr (w', s')" and "keeps_trace env"
  shows "traced_params s' = Some SAMPLERS \<and> heap w' = heap w"
proof -
  obtain names' Zm s5 s7 s8 where
    d: "setup_data (self\<lparr>state := data_state y X W M Zm Delta,
            trace := fresh_trace Map.empty names', traced_params := Some SAMPLERS\<rparr>) cfgs = Inr (s5, cfgs)"
    and t: "setup_truncation env (setup_configs s5 cfgs) = Inr s7"
    and i: "setup_initial_values s7 = Inr s8"
    and l: "sample_loop env (w, s8\<lparr>cycles := Some 0\<rparr>) (case n of None \<Rightarrow> 1000 | Some i \<Rightarrow> i) = Inr (w', s')"
    using Base_HSDM_init_Inr [OF assms(1)] by metis
  have tp: "traced_params s8 = Some SAMPLERS"
    using setup_data_frame(3) [OF d] setup_truncation_frame(2) [OF t]
      setup_initial_values_frame(2) [OF i]
    by (simp add: setup_configs_frame)
  from sample_loop_frame [OF l assms(2)] tp show ?thesis by simp
qed

lemma Base_HSDM_init_no_extras:
  "Base_HSDM_init env w self y X W M Z Delta n cfgs = Inr r \<Longrightarrow> kw_extra_tracked_params cfgs = None"
  by (cases r, hypsubst, erule Base_HSDM_init_Inr, assumption)

lemma HSDM_init_no_extras:
  "HSDM_init env w args = Inr r \<Longrightarrow> kw_extra_tracked_params (a_options args) = None"
  by (cases r, hypsubst, erule HSDM_init_Inr, drule Base_HSDM_init_no_extras, assumption)

text \<open>
  C9. With the option \<^verbatim>\<open>extra_tracked_params\<close> given, \<^verbatim>\<open>Base_HSDM.__init__\<close> called with
  an array \<open>Z\<close> raises \<^verbatim>\<open>NameError\<close> for the undefined name, and neither constructor
  returns for any input, so no instance tracking extra parameters exists. An instance
  that is built holds in \<open>traced_params\<close> the address of the module's list
  \<^verbatim>\<open>SAMPLERS\<close>; construction allocates no list of its own (the heap is unchanged), and
  whatever is later stored in the module's list is what the instance's attribute
  refers to.
\<close>

theorem extra_tracked_params_NameError:
  "Base_HSDM_init env w self y X W M (Some Zm) Delta n (cfgs\<lparr>kw_extra_tracked_params := Some ex\<rparr>)
       = Inl (NameError ''extra_tracked_params'')
   \<and> (\<forall>Z r. Base_HSDM_init env w self y X W M Z Delta n (cfgs\<lparr>kw_extra_tracked_params := Some ex\<rparr>)
          \<noteq> Inr r)
   \<and> (\<forall>r. HSDM_init env w
          (args\<lparr>a_options := (a_options args)\<lparr>kw_extra_tracked_params := Some ex\<rparr>\<rparr>) \<noteq> Inr r)
   \<and> (\<forall>Z w' s'. keeps_trace env \<longrightarrow>
          Base_HSDM_init env w self y X W M Z Delta n cfgs = Inr (w', s') \<longrightarrow>
          traced_params s' = Some SAMPLERS \<and> heap w' = heap w
          \<and> (\<forall>xs. deref (w'\<lparr>heap := (heap w')(SAMPLERS \<mapsto> xs)\<rparr>) (traced_params s') = Inr xs))"
proof (intro conjI allI impI)
  show "Base_HSDM_init env w self y X W M (Some Zm) Delta n (cfgs\<lparr>kw_extra_tracked_params := Some ex\<rparr>)
       = Inl (NameError ''extra_tracked_params'')"
    by (simp add: Base_HSDM_init_def Let_def case_prod_beta)
  show "Base_HSDM_init env w self y X W M Z Delta n (cfgs\<lparr>kw_extra_tracked_params := Some ex\<rparr>) \<noteq> Inr r"
    for Z r
    using Base_HSDM_init_no_extras [of env w self y X W M Z Delta n "cfgs\<lparr>kw_extra_tracked_params := Some ex\<rparr>" r]
    by auto
  show "HSDM_init env w (args\<lparr>a_options := (a_options args)\<lparr>kw_extra_tracked_params := Some ex\<rparr>\<rparr>) \<noteq> Inr r"
    for r
    using HSDM_init_no_extras [of env w "args\<lparr>a_options := (a_options args)\<lparr>kw_extra_tracked_params := Some ex\<rparr>\<rparr>" r]
    by auto
next
  fix Z w' s'
  assume k: "keeps_trace env" and b: "Base_HSDM_init env w self y X W M Z Delta n cfgs = Inr (w', s')"
  from Base_HSDM_init_alias [OF b k]
  show "traced_params s' = Some SAMPLERS" "heap w' = heap w"
    "deref (w'\<lparr>heap := (heap w')(SAMPLERS \<mapsto> xs)\<rparr>) (traced_params s') = Inr xs" for xs
    by (simp_all add: deref_def)
qed

theorem extra_tracked_params_NameError_witness:
  "Base_HSDM_init ex_env (import_model 0) new_hsdm (a_y ex_args) (a_X ex_args) (W_sparse ex_W3)
       (W_sparse ex_W3) (Some (NdArray (3, 1) [[1], [1], [1]])) (np_identity 3) (Some 0)
       (no_options\<lparr>kw_extra_tracked_params := Some [''B'']\<rparr>) = Inl (NameError ''extra_tracked_params'')
   \<and> (\<exists>w' s'. Base_HSDM_init ex_env (import_model 0) new_hsdm (a_y ex_args) (a_X ex_args)
          (W_sparse ex_W3) (W_sparse ex_W3) (Some (NdArray (3, 1) [[1], [1], [1]])) (np_identity 3)
          (Some 0) no_options = Inr (w', s')
        \<and> traced_params s' = Some SAMPLERS \<and> heap w' = heap (import_model (0::nat))
        \<and> deref (w'\<lparr>heap := (heap w')(SAMPLERS \<mapsto> [''Rho'', ''B''])\<rparr>) (traced_params s')
            = Inr [''Rho'', ''B''])"
proof -
  have "\<exists>w' s'. Base_HSDM_init ex_env (import_model 0) new_hsdm (a_y ex_args) (a_X ex_args)
          (W_sparse ex_W3) (W_sparse ex_W3) (Some (NdArray (3, 1) [[1], [1], [1]])) (np_identity 3)
          (Some 0) no_options = Inr (w', s')"
    by (simp add: run_defs setup_defs array_defs ex_defs sample_loop_nonpos Let_def upt_rec)
  then obtain w' s' where run: "Base_HSDM_init ex_env (import_model 0) new_hsdm (a_y ex_args)
          (a_X ex_args) (W_sparse ex_W3) (W_sparse ex_W3) (Some (NdArray (3, 1) [[1], [1], [1]]))
          (np_identity 3) (Some 0) no_options = Inr (w', s')"
    by blast
  note inst = extra_tracked_params_NameError [where env = ex_env and w = "import_model 0"
      and self = new_hsdm and y = "a_y ex_args" and X = "a_X ex_args" and W = "W_sparse ex_W3"
      and M = "W_sparse ex_W3" and Zm = "NdArray (3, 1) [[1], [1], [1]]" and Delta = "np_identity 3"
      and n = "Some 0" and cfgs = no_options and ex = "[''B'']" and args = ex_args]
  from inst have a: "Base_HSDM_init ex_env (import_model 0) new_hsdm (a_y ex_args) (a_X ex_args)
       (W_sparse ex_W3) (W_sparse ex_W3) (Some (NdArray (3, 1) [[1], [1], [1]])) (np_identity 3)
       (Some 0) (no_options\<lparr>kw_extra_tracked_params := Some [''B'']\<rparr>)
       = Inl (NameError ''extra_tracked_params'')"
    by blast
  note c = inst [THEN conjunct2, THEN conjunct2, THEN conjunct2, rule_format,
      OF keeps_trace_ex_env run]
  have b1: "traced_params s' = Some SAMPLERS" using c by (rule conjunct1)
  have b2: "heap w' = heap (import_model (0::nat))" using c by (elim conjE)
  have b3: "deref (w'\<lparr>heap := (heap w')(SAMPLERS \<mapsto> [''Rho'', ''B''])\<rparr>) (traced_params s')
            = Inr [''Rho'', ''B'']"
    using c by (elim conjE allE [of _ "[''Rho'', ''B'']"])
  show ?thesis
    by (rule conjI [OF a]) (rule exI [of _ w'], rule exI [of _ s'], intro conjI, rule run, rule b1, rule b2, rule b3)
qed

section \<open>The domain of Rho\<close>

lemma Rho_in_domain_cong:
  "st' ''Rho_min'' = st ''Rho_min'' \<Longrightarrow> st' ''Rho_max'' = st ''Rho_max'' \<Longrightarrow> st' ''Rho'' = st ''Rho''
     \<Longrightarrow> Rho_in_domain st' = Rho_in_domain st"
  by (simp add: Rho_in_domain_def)

lemma all_in_domain_cong:
  "st' ''Rho_min'' = st ''Rho_min'' \<Longrightarrow> st' ''Rho_max'' = st ''Rho_max''
     \<Longrightarrow> all_in_domain st' vs = all_in_domain st vs"
  by (simp add: all_in_domain_def Rho_in_domain_def)

lemma all_in_domain_append:
  "all_in_domain st (xs @ ys) \<longleftrightarrow> all_in_domain st xs \<and> all_in_domain st ys"
  by (simp add: all_in_domain_def)

lemma all_in_domain_current:
  assumes "Rho_in_domain st" and "\<forall>v\<in>set ys. st ''Rho'' = Some v"
  shows "all_in_domain st ys"
proof -
  have "Rho_in_domain (st(''Rho'' \<mapsto> v))" if "v \<in> set ys" for v
  proof -
    from that assms(2) have "st(''Rho'' \<mapsto> v) = st" by (auto simp: fun_eq_iff)
    with assms(1) show ?thesis by simp
  qed
  then show ?thesis by (simp add: all_in_domain_def list_all_iff)
qed

lemma spec_sweep_domain:
  assumes "spec_sweep period stream k s = Inr (k', s')" and "Rho_in_domain (state s)"
  shows "Rho_in_domain (state s')" and "state s' ''Rho_min'' = state s ''Rho_min''"
    and "state s' ''Rho_max'' = state s ''Rho_max''"
  using assms
  by (auto simp: spec_sweep_def Let_def ebind_eq_Inr Rho_in_domain_def attr_def
      split: option.splits if_splits pyval.splits)

lemma record_params_suffix:
  "record_params st names tr = Inr tr' \<Longrightarrow> tr' k = Some zs \<Longrightarrow>
     \<exists>xs ys. tr k = Some xs \<and> zs = xs @ ys \<and> (\<forall>v\<in>set ys. st k = Some v)"
proof (induction names arbitrary: tr)
  case Nil
  then show ?case by simp
next
  case (Cons a names)
  from Cons.prems(1) obtain xs v where a: "tr a = Some xs" "st a = Some v"
    and rest: "record_params st names (tr(a \<mapsto> xs @ [v])) = Inr tr'"
    by (auto split: option.splits)
  from Cons.IH [OF rest Cons.prems(2)] obtain xs' ys where
    h: "(tr(a \<mapsto> xs @ [v])) k = Some xs'" "zs = xs' @ ys" "\<forall>v\<in>set ys. st k = Some v"
    by blast
  show ?case
  proof (cases "k = a")
    case True
    with h a have "tr k = Some xs" "zs = xs @ (v # ys)" "\<forall>u\<in>set (v # ys). st k = Some u"
      by auto
    then show ?thesis by blast
  next
    case False
    with h show ?thesis by auto
  qed
qed

lemma draw_invariant:
  assumes "draw env (w, s) = Inr (w', s')" and "sample_sweep env = spec_sweep period stream"
    and "Rho_invariant s"
  shows "Rho_invariant s'" and "state s' ''Rho_min'' = state s ''Rho_min''"
    and "state s' ''Rho_max'' = state s ''Rho_max''"
proof -
  from assms(1) obtain r s1 names1 tr where
      sw: "sample_sweep env (rng w) s = Inr (r, s1)"
    and rp: "record_params (state s1) names1 (trace s1) = Inr tr"
    and s': "s' = s1\<lparr>trace := tr\<rparr>"
    by (auto simp: draw_def ebind_eq_Inr Let_def)
  from sw assms(2) have sp: "spec_sweep period stream (rng w) s = Inr (r, s1)" by simp
  from assms(3) have dom: "Rho_in_domain (state s)" by (simp add: Rho_invariant_def)
  note d = spec_sweep_domain [OF sp dom]
  from spec_sweep_keeps_trace [OF sp] have tr1: "trace s1 = trace s" by simp
  show "state s' ''Rho_min'' = state s ''Rho_min''" "state s' ''Rho_max'' = state s ''Rho_max''"
    using d s' by simp_all
  have "all_in_domain (state s1) zs" if "tr ''Rho'' = Some zs" for zs
  proof -
    from record_params_suffix [OF rp that] tr1 obtain xs ys where
      h: "trace s ''Rho'' = Some xs" "zs = xs @ ys" "\<forall>v\<in>set ys. state s1 ''Rho'' = Some v"
      by auto
    from assms(3) h(1) have "all_in_domain (state s) xs" by (simp add: Rho_invariant_def)
    then have "all_in_domain (state s1) xs"
      using all_in_domain_cong [OF d(2,3)] by simp
    moreover have "all_in_domain (state s1) ys"
      using all_in_domain_current [OF d(1) h(3)] .
    ultimately show ?thesis using h(2) by (simp add: all_in_domain_append)
  qed
  then show "Rho_invariant s'"
    using d(1) s' by (simp add: Rho_invariant_def split: option.splits)
qed

lemma sample_loop_invariant:
  "sample_loop env ws n = Inr ws' \<Longrightarrow> sample_sweep env = spec_sweep period stream \<Longrightarrow>
     Rho_invariant (snd ws) \<Longrightarrow>
     Rho_invariant (snd ws') \<and> state (snd ws') ''Rho_min'' = state (snd ws) ''Rho_min''
       \<and> state (snd ws') ''Rho_max'' = state (snd ws) ''Rho_max''"
proof (induction env ws n arbitrary: ws' rule: sample_loop.induct)
  case (1 env ws ndraws)
  show ?case
  proof (cases "ndraws > 0")
    case False
    with "1.prems"(1) have "ws' = ws" by (simp add: sample_loop_nonpos)
    with "1.prems"(3) show ?thesis by simp
  next
    case True
    from "1.prems"(1) True obtain v ws1 where v: "verbose (snd ws) = Some v"
      and d: "draw env (report (fst ws) v ndraws, snd ws) = Inr ws1"
      and l: "sample_loop env ws1 (ndraws - 1) = Inr ws'"
      by (auto simp: sample_loop_pos split: option.splits sum.splits)
    obtain w1 s1 where ws1: "ws1 = (w1, s1)" by (cases ws1)
    note di = draw_invariant [OF d [unfolded ws1] "1.prems"(2,3)]
    from di(1) ws1 have "Rho_invariant (snd ws1)" by simp
    from "1.IH" [OF True v d l "1.prems"(2) this] di(2,3) ws1 show ?thesis by simp
  qed
qed

lemma setup_initial_values_Rho:
  "setup_initial_values s = Inr s' \<Longrightarrow> state s ''J'' = Some (PyInt j) \<Longrightarrow>
     state s' ''Rho'' = Some (PyFloat (- 1 / real_of_int (j - 1)))"
  by (auto simp: setup_initial_values_def Let_def ebind_eq_Inr get_int_def attr_def split: if_splits)

lemma fresh_trace_empty:
  "fresh_trace Map.empty names k = (if k \<in> set names then Some [] else None)"
  unfolding fresh_trace_def by (induction names rule: rev_induct) auto

text \<open>
  C1. Claimed: at the end of every completed draw \<open>Rho_min < Rho\<close>, starting from
  \<open>Rho = - 1 / (J - 1)\<close>. On the two-group example the bounds are \<open>(- 1, 1)\<close> and the
  starting value is \<open>- 1\<close>, the lower bound itself. With the sweep of the specification
  the first proposal, \<open>- 3 / 2\<close>, is outside the domain and rejected: after one completed
  draw \<open>Rho\<close> and the value recorded for it are still \<open>Rho_min\<close>.
\<close>

theorem Rho_leaves_domain_counterexample:
  "\<exists>w' s'. HSDM_init ex_env2 (import_model 0) ex_args2 = Inr (w', s')
     \<and> advance_calls w' = 1
     \<and> state s' ''Rho_min'' = Some (PyFloat (- 1))
     \<and> state s' ''Rho'' = Some (PyFloat (- 1))
     \<and> state s' ''Rho_max'' = Some (PyFloat 1)
     \<and> trace s' ''Rho'' = Some [PyFloat (- 1)]
     \<and> \<not> Rho_in_domain (state s')"
  by (simp add: run_defs setup_defs array_defs ex_defs sample_loop_nonpos sample_loop_pos Let_def
      upt_rec Rho_in_domain_def)

section \<open>The sampling loop\<close>

lemma draw_step:
  assumes "draw env (w, s) = Inr (w', s')" and "keeps_trace env"
    and "deref w (traced_params s) = Inr names"
  obtains t tr where "sample_sweep env (rng w) s = Inr (rng w', t)"
    and "record_params (state t) names (trace t) = Inr tr"
    and "s' = t\<lparr>trace := tr\<rparr>" and "trace t = trace s"
proof -
  from assms(1) obtain r s1 names1 tr where
      sw: "sample_sweep env (rng w) s = Inr (r, s1)"
    and dr: "deref (w\<lparr>advance_calls := Suc (advance_calls w), rng := r\<rparr>) (traced_params s1) = Inr names1"
    and rp: "record_params (state s1) names1 (trace s1) = Inr tr"
    and w': "w' = w\<lparr>advance_calls := Suc (advance_calls w), rng := r\<rparr>"
    and s': "s' = s1\<lparr>trace := tr\<rparr>"
    by (auto simp: draw_def ebind_eq_Inr Let_def)
  from assms(2) sw have fr: "trace s1 = trace s" "traced_params s1 = traced_params s"
    by (auto simp: keeps_trace_def)
  have "deref (w\<lparr>advance_calls := Suc (advance_calls w), rng := r\<rparr>) (traced_params s1)
      = deref w (traced_params s)"
    using fr deref_heap [of "w\<lparr>advance_calls := Suc (advance_calls w), rng := r\<rparr>" w] by simp
  with dr assms(3) have n1: "names1 = names" by simp
  have r: "rng w' = r" using w' by simp
  show thesis
    using that [OF sw [folded r] rp [unfolded n1] s' fr(1)] .
qed

lemma sample_loop_chain:
  "sample_loop env ws n = Inr ws' \<Longrightarrow> deref (fst ws) (traced_params (snd ws)) = Inr names \<Longrightarrow>
     keeps_trace env \<Longrightarrow> distinct names \<Longrightarrow>
     \<exists>ts. length ts = nat n
        \<and> draw_chain env names (rng (fst ws), snd ws) ts (rng (fst ws'), snd ws')
        \<and> (\<forall>k\<in>set names. \<forall>xs. trace (snd ws) k = Some xs \<longrightarrow>
              (\<exists>ys. trace (snd ws') k = Some (xs @ ys) \<and> map Some ys = map (\<lambda>t. state t k) ts))
        \<and> (\<forall>k. k \<notin> set names \<longrightarrow> trace (snd ws') k = trace (snd ws) k)
        \<and> (ts \<noteq> [] \<longrightarrow> state (snd ws') = state (last ts))"
proof (induction env ws n arbitrary: ws' rule: sample_loop.induct)
  case (1 env ws ndraws)
  show ?case
  proof (cases "ndraws > 0")
    case False
    with "1.prems"(1) have "ws' = ws" by (simp add: sample_loop_nonpos)
    with False show ?thesis by (intro exI [of _ "[]"]) simp
  next
    case True
    from "1.prems"(1) True obtain v ws1 where v: "verbose (snd ws) = Some v"
      and d: "draw env (report (fst ws) v ndraws, snd ws) = Inr ws1"
      and l: "sample_loop env ws1 (ndraws - 1) = Inr ws'"
      by (auto simp: sample_loop_pos split: option.splits sum.splits)
    obtain w1 s1 where ws1: "ws1 = (w1, s1)" by (cases ws1)
    have dr0: "deref (report (fst ws) v ndraws) (traced_params (snd ws)) = Inr names"
      using "1.prems"(2) deref_heap [of "report (fst ws) v ndraws" "fst ws"] by simp
    note de = draw_effect [OF "1.prems"(3) d [unfolded ws1] dr0 "1.prems"(4)]
    have dr1: "deref (fst ws1) (traced_params (snd ws1)) = Inr names"
      using dr0 de(2,3) ws1 deref_heap [of w1 "report (fst ws) v ndraws"] by simp
    from draw_step [OF d [unfolded ws1] "1.prems"(3) dr0] obtain t tr where
      sw: "sample_sweep env (rng (report (fst ws) v ndraws)) (snd ws) = Inr (rng w1, t)"
      and rp: "record_params (state t) names (trace t) = Inr tr"
      and s1: "s1 = t\<lparr>trace := tr\<rparr>" and tt: "trace t = trace (snd ws)"
      by blast
    from "1.IH" [OF True v d l dr1 "1.prems"(3,4)] obtain ts where
      len: "length ts = nat (ndraws - 1)"
      and ch: "draw_chain env names (rng (fst ws1), snd ws1) ts (rng (fst ws'), snd ws')"
      and app: "\<forall>k\<in>set names. \<forall>xs. trace (snd ws1) k = Some xs \<longrightarrow>
              (\<exists>ys. trace (snd ws') k = Some (xs @ ys) \<and> map Some ys = map (\<lambda>t. state t k) ts)"
      and oth: "\<forall>k. k \<notin> set names \<longrightarrow> trace (snd ws') k = trace (snd ws1) k"
      and lst: "ts \<noteq> [] \<longrightarrow> state (snd ws') = state (last ts)"
      by blast
    have c1: "length (t # ts) = nat ndraws" using len True by simp
    have c2: "draw_chain env names (rng (fst ws), snd ws) (t # ts) (rng (fst ws'), snd ws')"
      using sw rp ch ws1 s1 by simp
    have c3: "\<exists>ys. trace (snd ws') k = Some (xs @ ys) \<and> map Some ys = map (\<lambda>t. state t k) (t # ts)"
      if k: "k \<in> set names" and xs: "trace (snd ws) k = Some xs" for k xs
    proof -
      from record_params_in [OF rp "1.prems"(4) k] xs tt obtain x where
        x: "state t k = Some x" "tr k = Some (xs @ [x])" by auto
      then have "trace (snd ws1) k = Some (xs @ [x])" using ws1 s1 by simp
      with app k obtain ys where
        ys: "trace (snd ws') k = Some ((xs @ [x]) @ ys)" "map Some ys = map (\<lambda>t. state t k) ts"
        by blast
      show ?thesis
        using ys x(1) by (intro exI [of _ "x # ys"]) simp
    qed
    have c4: "trace (snd ws') k = trace (snd ws) k" if k: "k \<notin> set names" for k
      using record_params_other [OF rp k] oth k ws1 s1 tt by simp
    have c5: "state (snd ws') = state (last (t # ts))"
    proof (cases "ts = []")
      case True
      with len have "ndraws - 1 \<le> 0" by simp
      with l have "ws' = ws1" by (simp add: sample_loop_nonpos)
      with True ws1 s1 show ?thesis by simp
    next
      case False
      with lst show ?thesis by simp
    qed
    show ?thesis
      using c1 c2 c3 c4 c5 by (intro exI [of _ "t # ts"]) blast
  qed
qed

text \<open>
  C6. A call \<^verbatim>\<open>sample(ndraws)\<close> without \<^verbatim>\<open>pop\<close> that returns, on any instance and
  whatever its trace holds already, returns \<^verbatim>\<open>None\<close> and has run the loop of the
  specification: there are exactly \<open>ndraws\<close> instances \<open>ts\<close> (\<open>nat ndraws\<close>: none for a
  negative count), each returned by one call of the sweep on the result of the previous
  call with its values recorded, threading the sweep's private state from the first call
  to the last. For every traced name the list after the call is the list before it
  followed by the values the state held after each of these sweeps, in order; the list
  of every other name is unchanged; the state at the end is the state the last sweep
  returned. The sweep is assumed to keep to its interface and the traced names to be
  distinct. The counter of sweeps entered goes up by \<open>ndraws\<close>, and from an empty list
  every traced name ends with exactly \<open>ndraws\<close> values.
\<close>

theorem sample_records_every_draw:
  assumes "sample env (w, self) ndraws False = Inr (w', self', ret)"
    and "keeps_trace env"
    and "deref w (traced_params self) = Inr names" and "distinct names"
  shows "ret = None
     \<and> (\<exists>ts. length ts = nat ndraws
           \<and> draw_chain env names (rng w, self) ts (rng w', self')
           \<and> (\<forall>k\<in>set names. \<forall>xs. trace self k = Some xs \<longrightarrow>
                 (\<exists>ys. trace self' k = Some (xs @ ys) \<and> length ys = nat ndraws
                       \<and> map Some ys = map (\<lambda>t. state t k) ts))
           \<and> (\<forall>k. k \<notin> set names \<longrightarrow> trace self' k = trace self k)
           \<and> (ts \<noteq> [] \<longrightarrow> state self' = state (last ts)))
     \<and> advance_calls w' = advance_calls w + nat ndraws
     \<and> (\<forall>k\<in>set names. trace self k = Some [] \<longrightarrow>
           (\<exists>ys. trace self' k = Some ys \<and> length ys = nat ndraws
                 \<and> (0 < ndraws \<longrightarrow> state self' k = Some (last ys))))"
proof -
  from assms(1) have l: "sample_loop env (w, self) ndraws = Inr (w', self')" and r: "ret = None"
    by (simp_all add: sample_Inr)
  have d: "deref (fst (w, self)) (traced_params (snd (w, self))) = Inr names"
    using assms(3) by simp
  from sample_loop_chain [OF l d assms(2,4)] obtain ts where
    len: "length ts = nat ndraws"
    and ch: "draw_chain env names (rng w, self) ts (rng w', self')"
    and app: "\<forall>k\<in>set names. \<forall>xs. trace self k = Some xs \<longrightarrow>
              (\<exists>ys. trace self' k = Some (xs @ ys) \<and> map Some ys = map (\<lambda>t. state t k) ts)"
    and oth: "\<forall>k. k \<notin> set names \<longrightarrow> trace self' k = trace self k"
    and lst: "ts \<noteq> [] \<longrightarrow> state self' = state (last ts)"
    by auto
  have app': "\<forall>k\<in>set names. \<forall>xs. trace self k = Some xs \<longrightarrow>
                 (\<exists>ys. trace self' k = Some (xs @ ys) \<and> length ys = nat ndraws
                       \<and> map Some ys = map (\<lambda>t. state t k) ts)"
  proof (intro ballI allI impI)
    fix k xs assume "k \<in> set names" "trace self k = Some xs"
    with app obtain ys where ys: "trace self' k = Some (xs @ ys)"
      "map Some ys = map (\<lambda>t. state t k) ts" by blast
    from ys(2) have "length ys = length ts" by (metis length_map)
    with ys len show "\<exists>ys. trace self' k = Some (xs @ ys) \<and> length ys = nat ndraws
                       \<and> map Some ys = map (\<lambda>t. state t k) ts" by auto
  qed
  note se = sample_loop_effect [OF l d assms(2,4)]
  have eff1: "advance_calls w' = advance_calls w + nat ndraws"
    using se by simp
  have eff2: "\<forall>k\<in>set names. trace self k = Some [] \<longrightarrow>
           (\<exists>ys. trace self' k = Some ys \<and> length ys = nat ndraws
                 \<and> (0 < ndraws \<longrightarrow> state self' k = Some (last ys)))"
  proof (intro ballI impI)
    fix k assume k: "k \<in> set names" and e: "trace self k = Some []"
    from se have "\<forall>k\<in>set names. \<forall>xs. trace self k = Some xs \<longrightarrow>
           (\<exists>ys. trace self' k = Some (xs @ ys) \<and> length ys = nat ndraws
                 \<and> (0 < ndraws \<longrightarrow> state self' k = Some (last ys)))"
      by simp
    with k e obtain ys where "trace self' k = Some ([] @ ys)" "length ys = nat ndraws"
      "0 < ndraws \<longrightarrow> state self' k = Some (last ys)"
      by blast
    then show "\<exists>ys. trace self' k = Some ys \<and> length ys = nat ndraws
                 \<and> (0 < ndraws \<longrightarrow> state self' k = Some (last ys))"
      by auto
  qed
  show ?thesis
    using r len ch app' oth lst eff1 eff2 by blast
qed

theorem sample_records_every_draw_witness:
  "\<exists>w' self'. sample ex_env_count (import_model 0, ex_sampler_used) 2 False = Inr (w', self', None)
     \<and> rng w' = 2 \<and> advance_calls w' = 2
     \<and> trace self' ''Rho'' = Some [PyFloat 7, PyFloat (- 1 / 2), PyFloat (- 1 / 2)]
     \<and> trace self' ''Sigma2'' = Some [PyInt 2, PyInt 2]
     \<and> (\<exists>ts. length ts = 2
           \<and> draw_chain ex_env_count SAMPLERS_items (0, ex_sampler_used) ts (2, self'))"
proof -
  have "\<exists>w' self' ret. sample ex_env_count (import_model 0, ex_sampler_used) 2 False = Inr (w', self', ret)
      \<and> rng w' = 2
      \<and> trace self' ''Rho'' = Some [PyFloat 7, PyFloat (- 1 / 2), PyFloat (- 1 / 2)]
      \<and> trace self' ''Sigma2'' = Some [PyInt 2, PyInt 2]"
    by (simp add: ex_env_count_def ex_sampler_used_def ex_sampler_def run_defs sample_loop_pos
        sample_loop_nonpos)
  then obtain w' self' ret
    where run: "sample ex_env_count (import_model 0, ex_sampler_used) 2 False = Inr (w', self', ret)"
      and r: "rng w' = 2"
      and t1: "trace self' ''Rho'' = Some [PyFloat 7, PyFloat (- 1 / 2), PyFloat (- 1 / 2)]"
      and t2: "trace self' ''Sigma2'' = Some [PyInt 2, PyInt 2]"
    by blast
  have k: "keeps_trace ex_env_count"
    by (simp add: keeps_trace_def ex_env_count_def)
  have d: "deref (import_model 0) (traced_params ex_sampler_used) = Inr SAMPLERS_items"
    by (simp add: deref_def import_model_def ex_sampler_used_def ex_sampler_def)
  have n: "distinct SAMPLERS_items"
    by (simp add: SAMPLERS_items_def)
  have r0: "rng (import_model (0::nat)) = 0" "advance_calls (import_model (0::nat)) = 0"
    by (simp_all add: import_model_def)
  note c = sample_records_every_draw [OF run k d n]
  from c have ret: "ret = None" by (rule conjunct1)
  from c have calls: "advance_calls w' = 2" using r0 by simp
  from c obtain ts where "length ts = nat 2"
    "draw_chain ex_env_count SAMPLERS_items (rng (import_model 0), ex_sampler_used) ts (rng w', self')"
    by blast
  then have ch: "\<exists>ts. length ts = 2
      \<and> draw_chain ex_env_count SAMPLERS_items (0, ex_sampler_used) ts (2, self')"
    using r r0 by auto
  from run ret r calls t1 t2 ch show ?thesis by blast
qed

lemma sample_calls_invariant:
  "sample_calls env later ws = Inr ws' \<Longrightarrow> sample_sweep env = spec_sweep period stream \<Longrightarrow>
     Rho_invariant (snd ws) \<Longrightarrow>
     Rho_invariant (snd ws') \<and> state (snd ws') ''Rho_min'' = state (snd ws) ''Rho_min''
       \<and> state (snd ws') ''Rho_max'' = state (snd ws) ''Rho_max''"
proof (induction later arbitrary: ws)
  case Nil
  then show ?case by simp
next
  case (Cons ndraws later)
  from Cons.prems(1) obtain w1 s1 ret where
    s: "sample env ws ndraws False = Inr (w1, s1, ret)"
    and c: "sample_calls env later (w1, s1) = Inr ws'"
    by (auto simp: ebind_eq_Inr)
  from s have l: "sample_loop env ws ndraws = Inr (w1, s1)" by (simp add: sample_Inr)
  from sample_loop_invariant [OF l Cons.prems(2,3)]
  have i1: "Rho_invariant (snd (w1, s1))" "state s1 ''Rho_min'' = state (snd ws) ''Rho_min''"
    "state s1 ''Rho_max'' = state (snd ws) ''Rho_max''"
    by simp_all
  from Cons.IH [OF c Cons.prems(2) i1(1)] i1(2,3) show ?case by simp
qed

text \<open>
  C1, as it holds: when the starting value \<open>- 1 / (J - 1)\<close> lies strictly between the
  reciprocals of the two (nonzero) eigenvalues, then after a construction and after any
  sequence of later calls \<^verbatim>\<open>sample(n)\<close>, with the sweep of the specification (its tuning
  of \<open>jump\<close> included, for any period, any options and whatever the stream gives), \<open>Rho\<close>
  lies strictly between the bounds fixed at set-up, and so does every value recorded for
  it, which is the value at the end of each completed draw.
\<close>

theorem Rho_stays_in_domain:
  assumes "Base_HSDM_init env w self y X W M Z Delta n cfgs = Inr ws1"
    and "sample_calls env later ws1 = Inr (w2, s2)"
    and "sample_sweep env = spec_sweep period stream"
    and "speigen_range env M = Inr (e_min, e_max)"
    and "scalar_val e_min \<noteq> 0" and "scalar_val e_max \<noteq> 0"
    and "1 / scalar_val e_min < - 1 / (real (fst (shape M)) - 1)"
    and "- 1 / (real (fst (shape M)) - 1) < 1 / scalar_val e_max"
  shows "Rho_in_domain (state s2)
     \<and> state s2 ''Rho_min'' = Some (PyFloat (1 / scalar_val e_min))
     \<and> state s2 ''Rho_max'' = Some (PyFloat (1 / scalar_val e_max))
     \<and> (\<forall>vs. trace s2 ''Rho'' = Some vs \<longrightarrow> all_in_domain (state s2) vs)"
proof -
  obtain w' s' where ws1: "ws1 = (w', s')" by (cases ws1)
  obtain names Zm s5 s7 s8 where
    d: "setup_data (self\<lparr>state := data_state y X W M Zm Delta,
            trace := fresh_trace Map.empty names, traced_params := Some SAMPLERS\<rparr>) cfgs = Inr (s5, cfgs)"
    and t: "setup_truncation env (setup_configs s5 cfgs) = Inr s7"
    and i: "setup_initial_values s7 = Inr s8"
    and l: "sample_loop env (w, s8\<lparr>cycles := Some 0\<rparr>) (case n of None \<Rightarrow> 1000 | Some i \<Rightarrow> i) = Inr (w', s')"
    using Base_HSDM_init_Inr [OF assms(1) [unfolded ws1]] by metis
  have M5: "state (setup_configs s5 cfgs) ''M'' = Some (Mat M)"
    and J5: "state (setup_configs s5 cfgs) ''J'' = Some (PyInt (int (fst (shape M))))"
    using setup_data_frame(5) [OF d, of "''M''"] setup_data_frame(5) [OF d, of "''J''"]
    by (simp_all add: data_keys_def data_state_def setup_configs_frame)
  from assms(5,6) have nz: "e_min \<noteq> PyF 0" "e_max \<noteq> PyF 0" by auto
  from setup_truncation_eq [OF M5 assms(4)] t nz assms(5,6)
  have s7: "s7 = (setup_configs s5 cfgs)\<lparr>state := (state (setup_configs s5 cfgs))
       (''Rho_min'' \<mapsto> PyFloat (1 / scalar_val e_min), ''Rho_max'' \<mapsto> PyFloat (1 / scalar_val e_max))\<rparr>"
    by simp
  have J7: "state s7 ''J'' = Some (PyInt (int (fst (shape M))))"
    and lo7: "state s7 ''Rho_min'' = Some (PyFloat (1 / scalar_val e_min))"
    and hi7: "state s7 ''Rho_max'' = Some (PyFloat (1 / scalar_val e_max))"
    using J5 by (simp_all add: s7)
  have tr7: "trace s7 = fresh_trace Map.empty names"
    using setup_data_frame(2) [OF d] setup_truncation_frame(1) [OF t]
    by (simp add: setup_configs_frame)
  have rho8: "state s8 ''Rho'' = Some (PyFloat (- 1 / (real (fst (shape M)) - 1)))"
    using setup_initial_values_Rho [OF i J7] by simp
  have lo8: "state s8 ''Rho_min'' = Some (PyFloat (1 / scalar_val e_min))"
    and hi8: "state s8 ''Rho_max'' = Some (PyFloat (1 / scalar_val e_max))"
    using setup_initial_values_frame(4) [OF i, of "''Rho_min''"]
      setup_initial_values_frame(4) [OF i, of "''Rho_max''"] lo7 hi7
    by (simp_all add: init_keys_def)
  have tr8: "trace s8 = fresh_trace Map.empty names"
    using setup_initial_values_frame(1) [OF i] tr7 by simp
  have dom8: "Rho_in_domain (state s8)"
    using rho8 lo8 hi8 assms(7,8) by (simp add: Rho_in_domain_def)
  have inv8: "Rho_invariant (snd (w, s8\<lparr>cycles := Some 0\<rparr>))"
    using dom8 tr8 by (simp add: Rho_invariant_def fresh_trace_empty all_in_domain_def)
  from sample_loop_invariant [OF l assms(3) inv8] lo8 hi8
  have inv1: "Rho_invariant (snd ws1)"
    and b1: "state (snd ws1) ''Rho_min'' = Some (PyFloat (1 / scalar_val e_min))"
      "state (snd ws1) ''Rho_max'' = Some (PyFloat (1 / scalar_val e_max))"
    using ws1 by simp_all
  from sample_calls_invariant [OF assms(2,3) inv1] b1 show ?thesis
    by (simp add: Rho_invariant_def split: option.splits)
qed

theorem Rho_stays_in_domain_witness:
  "\<exists>ws1 w2 s2. Base_HSDM_init ex_env (import_model 0) (new_hsdm\<lparr>verbose := Some 0\<rparr>) (a_y ex_args)
        (a_X ex_args) (W_sparse ex_W3) (W_sparse ex_W3) (a_Z ex_args) (np_identity 3) (Some 2)
        ex_tuned = Inr ws1
     \<and> sample_calls ex_env [1] ws1 = Inr (w2, s2)
     \<and> advance_calls w2 = 3
     \<and> map_option (\<lambda>c. jump (Rho c)) (configs s2) = Some (101 / 200)
     \<and> Rho_in_domain (state s2)
     \<and> state s2 ''Rho_min'' = Some (PyFloat (- 2))
     \<and> state s2 ''Rho_max'' = Some (PyFloat 1)
     \<and> (\<exists>vs. trace s2 ''Rho'' = Some vs \<and> length vs = 3 \<and> all_in_domain (state s2) vs)"
proof -
  have "\<exists>ws1 w2 s2 vs. Base_HSDM_init ex_env (import_model 0) (new_hsdm\<lparr>verbose := Some 0\<rparr>) (a_y ex_args)
        (a_X ex_args) (W_sparse ex_W3) (W_sparse ex_W3) (a_Z ex_args) (np_identity 3) (Some 2)
        ex_tuned = Inr ws1
      \<and> sample_calls ex_env [1] ws1 = Inr (w2, s2)
      \<and> advance_calls w2 = 3
      \<and> map_option (\<lambda>c. jump (Rho c)) (configs s2) = Some (101 / 200)
      \<and> trace s2 ''Rho'' = Some vs \<and> length vs = 3"
    by (simp add: run_defs setup_defs array_defs ex_defs ex_tuned_def sample_loop_nonpos
        sample_loop_pos Let_def upt_rec)
  then obtain ws1 w2 s2 vs where run: "Base_HSDM_init ex_env (import_model 0) (new_hsdm\<lparr>verbose := Some 0\<rparr>)
        (a_y ex_args) (a_X ex_args) (W_sparse ex_W3) (W_sparse ex_W3) (a_Z ex_args) (np_identity 3)
        (Some 2) ex_tuned = Inr ws1"
    and later: "sample_calls ex_env [1] ws1 = Inr (w2, s2)"
    and calls: "advance_calls w2 = 3"
    and jmp: "map_option (\<lambda>c. jump (Rho c)) (configs s2) = Some (101 / 200)"
    and vs: "trace s2 ''Rho'' = Some vs" "length vs = 3"
    by blast
  have sw: "sample_sweep ex_env = spec_sweep 1 ex_stream" by (simp add: ex_env_def)
  have e: "speigen_range ex_env (W_sparse ex_W3) = Inr (NpF (- 1 / 2), NpF 1)"
    by (simp add: ex_env_def)
  have n1: "scalar_val (NpF (- 1 / 2)) \<noteq> 0" and n2: "scalar_val (NpF 1) \<noteq> 0" by simp_all
  have b1: "1 / scalar_val (NpF (- 1 / 2)) < - 1 / (real (fst (shape (W_sparse ex_W3))) - 1)"
    and b2: "- 1 / (real (fst (shape (W_sparse ex_W3))) - 1) < 1 / scalar_val (NpF 1)"
    by (simp_all add: ex_W3_def)
  from Rho_stays_in_domain [OF run later sw e n1 n2 b1 b2] vs
  have "Rho_in_domain (state s2)" "state s2 ''Rho_min'' = Some (PyFloat (- 2))"
    "state s2 ''Rho_max'' = Some (PyFloat 1)" "all_in_domain (state s2) vs"
    by simp_all
  with run later calls jmp vs show ?thesis by blast
qed

end
